theory Spec2Isabelle
  imports Main "HOL-Library.Word" "HOL-Library.Sublist"
begin

section \<open>JavaScript values used by bookmarklet.js\<close>

text \<open>
  A JavaScript string is a sequence of 16-bit code units. String literals of the source
  are written with \<open>js\<close>, which maps each (ASCII) character to its code unit.
\<close>

type_synonym jsstring = "16 word list"

definition js :: "string \<Rightarrow> jsstring" where
  "js s = map of_char s"

text \<open>
  The characters removed by \<open>String.prototype.trim\<close>: ECMAScript WhiteSpace and
  LineTerminator (TAB, LF, VT, FF, CR, SP, NBSP, U+1680, U+2000..U+200A, U+2028, U+2029,
  U+202F, U+205F, U+3000, U+FEFF).
\<close>

definition is_ws :: "16 word \<Rightarrow> bool" where
  "is_ws c = (c = 0x9 \<or> c = 0xA \<or> c = 0xB \<or> c = 0xC \<or> c = 0xD \<or> c = 0x20 \<or> c = 0xA0
     \<or> c = 0x1680 \<or> (0x2000 \<le> c \<and> c \<le> 0x200A) \<or> c = 0x2028 \<or> c = 0x2029
     \<or> c = 0x202F \<or> c = 0x205F \<or> c = 0x3000 \<or> c = 0xFEFF)"

definition trim :: "jsstring \<Rightarrow> jsstring" where
  "trim s = rev (dropWhile is_ws (rev (dropWhile is_ws s)))"

text \<open>
  \<open>str.split(sep)\<close> for a one-character separator: the empty string splits into one
  empty piece, and a trailing separator gives a trailing empty piece.
\<close>

fun split_on :: "16 word \<Rightarrow> jsstring \<Rightarrow> jsstring list" where
  "split_on sep [] = [[]]"
| "split_on sep (c # cs) =
     (if c = sep then [] # split_on sep cs
      else (case split_on sep cs of
              [] \<Rightarrow> [[c]]
            | p # ps \<Rightarrow> (c # p) # ps))"

text \<open>\<open>arr.join(sep)\<close>.\<close>

fun join :: "jsstring \<Rightarrow> jsstring list \<Rightarrow> jsstring" where
  "join sep [] = []"
| "join sep [x] = x"
| "join sep (x # y # ys) = x @ sep @ join sep (y # ys)"

text \<open>A string is truthy exactly when it is not empty.\<close>

definition truthy :: "jsstring \<Rightarrow> bool" where
  "truthy s = (s \<noteq> [])"

text \<open>The code units of \<open>;\<close> and \<open>=\<close>.\<close>

definition semicolon :: "16 word" where
  "semicolon = 0x3B"

definition equals_sign :: "16 word" where
  "equals_sign = 0x3D"

text \<open>The errors a statement of the script can complete with.\<close>

datatype js_error = ReferenceError | TypeError | DOMException

text \<open>
  \<open>try { body } catch (e) { handler }\<close>: the handler runs exactly when the body
  throws; what the handler returns (or throws) is the result.
\<close>

definition try_catch :: "js_error + 'a \<Rightarrow> (js_error \<Rightarrow> js_error + 'a) \<Rightarrow> js_error + 'a" where
  "try_catch body handler = (case body of Inl e \<Rightarrow> handler e | Inr v \<Rightarrow> Inr v)"

text \<open>Sequencing of statements: an error of the first aborts the rest.\<close>

definition seq :: "js_error + 'a \<Rightarrow> ('a \<Rightarrow> js_error + 'b) \<Rightarrow> js_error + 'b" where
  "seq m f = (case m of Inl e \<Rightarrow> Inl e | Inr v \<Rightarrow> f v)"

section \<open>The host environment\<close>

text \<open>
  What the page's environment answers when the script reads one of its storage objects:
  the name is not there at all, it is there with value \<open>undefined\<close>, reading it throws
  (storage blocked for the page), or it yields the object. The answer stays the same
  while the script runs, except for what the script itself clears; the surfaces are
  independent of each other.
\<close>

datatype 'a host = NotPresent | Undef | Raises | Obj 'a

text \<open>
  Reading a bare global identifier (\<open>localStorage\<close>, \<open>caches\<close>, \<open>indexedDB\<close>):
  an undeclared name is a ReferenceError; \<open>None\<close> is the value \<open>undefined\<close>.
\<close>

fun global_ref :: "'a host \<Rightarrow> js_error + 'a option" where
  "global_ref NotPresent = Inl ReferenceError"
| "global_ref Undef = Inr None"
| "global_ref Raises = Inl DOMException"
| "global_ref (Obj x) = Inr (Some x)"

text \<open>
  Reading a property of an existing object (\<open>document.cookie\<close>,
  \<open>navigator.serviceWorker\<close>, \<open>navigator.storage\<close>): a missing property reads as
  \<open>undefined\<close>.
\<close>

fun prop_get :: "'a host \<Rightarrow> js_error + 'a option" where
  "prop_get NotPresent = Inr None"
| "prop_get Undef = Inr None"
| "prop_get Raises = Inl DOMException"
| "prop_get (Obj x) = Inr (Some x)"

text \<open>\<open>name in obj\<close>: true when the property exists, whatever reading it would do.\<close>

fun has_prop :: "'a host \<Rightarrow> bool" where
  "has_prop NotPresent = False"
| "has_prop _ = True"

text \<open>Using a value as an object: \<open>undefined.f\<close> is a TypeError.\<close>

fun deref :: "'a option \<Rightarrow> js_error + 'a" where
  "deref None = Inl TypeError"
| "deref (Some x) = Inr x"

text \<open>A Web Storage area (\<open>localStorage\<close>, \<open>sessionStorage\<close>): its key/value items.\<close>

type_synonym storage = "(jsstring \<times> jsstring) list"

text \<open>
  \<open>CacheStorage\<close>: the names of the caches, whether \<open>keys()\<close> rejects, and the names
  for which \<open>delete(name)\<close> rejects.
\<close>

record cache_storage =
  cache_names :: "jsstring list"
  keys_rejects :: bool
  delete_rejects :: "jsstring list"

text \<open>
  \<open>ServiceWorkerContainer\<close>: the registrations (by scope), whether
  \<open>getRegistrations()\<close> rejects, and the registrations whose \<open>unregister()\<close> rejects.
\<close>

record sw_container =
  registrations :: "jsstring list"
  getRegistrations_rejects :: bool
  unregister_rejects :: "jsstring list"

text \<open>
  \<open>IDBFactory\<close>: whether it has a \<open>databases\<close> method, whether calling it rejects,
  and the databases it lists.
\<close>

record idb_factory =
  has_databases :: bool
  databases_rejects :: bool
  idb_databases :: "jsstring list"

text \<open>\<open>navigator.storage\<close>: the \<open>estimate\<close> method and its answer (usage, quota).\<close>

record storage_manager =
  has_estimate :: bool
  estimate_rejects :: bool
  estimate_value :: "nat \<times> nat"

text \<open>A cookie the page's script can see, with the scope it was stored under.\<close>

record cookie =
  ck_name :: jsstring
  ck_value :: jsstring
  ck_domain :: jsstring
  ck_path :: jsstring

text \<open>
  The cookie state behind \<open>document.cookie\<close>: the visible cookies, and the strings the
  script has assigned to \<open>document.cookie\<close> so far, oldest first.
\<close>

record cookie_store =
  jar :: "cookie list"
  assigned :: "jsstring list"

record env =
  localStorage :: "storage host"
  sessionStorage :: "storage host"
  caches :: "cache_storage host"
  serviceWorker :: "sw_container host"
  indexedDB :: "idb_factory host"
  document_cookie :: "cookie_store host"
  navigator_storage :: "storage_manager host"
  location_hostname :: jsstring
  location_pathname :: jsstring

subsection \<open>Host operations\<close>

text \<open>\<open>storage.length\<close>: the number of items.\<close>

definition storage_length :: "storage \<Rightarrow> nat" where
  "storage_length st = length st"

text \<open>
  \<open>Object.keys(storage)\<close>: the keys of the items that show as own properties of the
  storage object. An item whose key is the name of a property of \<open>Storage.prototype\<close>
  or \<open>Object.prototype\<close> is hidden by that property and is not listed.
\<close>

definition prototype_names :: "jsstring list" where
  "prototype_names =
     [js ''length'', js ''key'', js ''getItem'', js ''setItem'', js ''removeItem'',
      js ''clear'', js ''constructor'', js ''hasOwnProperty'', js ''isPrototypeOf'',
      js ''propertyIsEnumerable'', js ''toLocaleString'', js ''toString'', js ''valueOf'',
      js ''__proto__'', js ''__defineGetter__'', js ''__defineSetter__'',
      js ''__lookupGetter__'', js ''__lookupSetter__'']"

definition object_keys :: "storage \<Rightarrow> jsstring list" where
  "object_keys st = filter (\<lambda>k. k \<notin> set prototype_names) (map fst st)"

definition storage_clear :: "storage \<Rightarrow> storage" where
  "storage_clear st = []"

definition caches_keys :: "cache_storage \<Rightarrow> js_error + jsstring list" where
  "caches_keys c = (if keys_rejects c then Inl DOMException else Inr (cache_names c))"

definition getRegistrations :: "sw_container \<Rightarrow> js_error + jsstring list" where
  "getRegistrations c =
     (if getRegistrations_rejects c then Inl DOMException else Inr (registrations c))"

definition databases :: "idb_factory \<Rightarrow> js_error + jsstring list" where
  "databases f = (if databases_rejects f then Inl DOMException else Inr (idb_databases f))"

definition estimate :: "storage_manager \<Rightarrow> js_error + (nat \<times> nat)" where
  "estimate m = (if estimate_rejects m then Inl DOMException else Inr (estimate_value m))"

text \<open>
  The \<open>document.cookie\<close> getter: the visible cookies as \<open>name=value\<close> (a cookie
  without a name as its bare value), joined by \<open>"; "\<close>.
\<close>

definition cookie_pair :: "cookie \<Rightarrow> jsstring" where
  "cookie_pair c = (if ck_name c = [] then ck_value c else ck_name c @ [equals_sign] @ ck_value c)"

definition cookie_string :: "cookie_store \<Rightarrow> jsstring" where
  "cookie_string st = join (js ''; '') (map cookie_pair (jar st))"

section \<open>Storage detection\<close>

text \<open>The object \<open>s\<close> of the script.\<close>

record summary =
  s_ls :: nat
  s_ss :: nat
  s_c :: nat
  s_sw :: nat
  s_idb :: nat
  s_ck :: nat
  s_est :: "(nat \<times> nat) option"

definition s_init :: summary where
  "s_init = \<lparr>s_ls = 0, s_ss = 0, s_c = 0, s_sw = 0, s_idb = 0, s_ck = 0, s_est = None\<rparr>"

text \<open>The cookie count expression shared by both detections, on the cookie string.\<close>

definition count_segments :: "jsstring \<Rightarrow> nat" where
  "count_segments str = length (filter (\<lambda>c. truthy (trim c)) (split_on semicolon str))"

text \<open>
  Each definition below is one \<open>try\<close> block of the initial detection: the body runs in
  the error monad, the \<open>catch\<close> clause leaves \<open>s\<close> as it was (or sets \<open>s.ck = 0\<close>).
\<close>

definition detect_ls :: "env \<Rightarrow> summary \<Rightarrow> js_error + summary" where
  "detect_ls e s =
     try_catch
       (seq (global_ref (localStorage e)) (\<lambda>v.
        seq (deref v) (\<lambda>st.
        Inr (s\<lparr>s_ls := length (object_keys st)\<rparr>))))
       (\<lambda>_. Inr s)"

definition detect_ss :: "env \<Rightarrow> summary \<Rightarrow> js_error + summary" where
  "detect_ss e s =
     try_catch
       (seq (global_ref (sessionStorage e)) (\<lambda>v.
        seq (deref v) (\<lambda>st.
        Inr (s\<lparr>s_ss := length (object_keys st)\<rparr>))))
       (\<lambda>_. Inr s)"

definition detect_c :: "env \<Rightarrow> summary \<Rightarrow> js_error + summary" where
  "detect_c e s =
     try_catch
       (if has_prop (caches e) then
          seq (global_ref (caches e)) (\<lambda>v.
          seq (deref v) (\<lambda>c.
          seq (caches_keys c) (\<lambda>ks.
          Inr (s\<lparr>s_c := length ks\<rparr>))))
        else Inr s)
       (\<lambda>_. Inr s)"

definition detect_sw :: "env \<Rightarrow> summary \<Rightarrow> js_error + summary" where
  "detect_sw e s =
     try_catch
       (if has_prop (serviceWorker e) then
          seq (prop_get (serviceWorker e)) (\<lambda>v.
          seq (deref v) (\<lambda>c.
          seq (getRegistrations c) (\<lambda>rs.
          Inr (s\<lparr>s_sw := length rs\<rparr>))))
        else Inr s)
       (\<lambda>_. Inr s)"

definition detect_idb :: "env \<Rightarrow> summary \<Rightarrow> js_error + summary" where
  "detect_idb e s =
     try_catch
       (seq (global_ref (indexedDB e)) (\<lambda>v.
        seq (deref v) (\<lambda>f.
        if has_databases f then
          seq (databases f) (\<lambda>ds. Inr (s\<lparr>s_idb := length ds\<rparr>))
        else Inr s)))
       (\<lambda>_. Inr s)"

definition detect_ck :: "env \<Rightarrow> summary \<Rightarrow> js_error + summary" where
  "detect_ck e s =
     try_catch
       (seq (prop_get (document_cookie e)) (\<lambda>v.
        case v of
          None \<Rightarrow> Inr (s\<lparr>s_ck := 0\<rparr>)
        | Some st \<Rightarrow>
            (if truthy (cookie_string st) \<and> truthy (trim (cookie_string st))
             then Inr (s\<lparr>s_ck := count_segments (cookie_string st)\<rparr>)
             else Inr (s\<lparr>s_ck := 0\<rparr>))))
       (\<lambda>_. Inr (s\<lparr>s_ck := 0\<rparr>))"

definition detect_est :: "env \<Rightarrow> summary \<Rightarrow> js_error + summary" where
  "detect_est e s =
     try_catch
       (seq (prop_get (navigator_storage e)) (\<lambda>v.
        case v of
          None \<Rightarrow> Inr s
        | Some m \<Rightarrow>
            (if has_estimate m then
               seq (estimate m) (\<lambda>r. Inr (s\<lparr>s_est := Some r\<rparr>))
             else Inr s)))
       (\<lambda>_. Inr s)"

text \<open>The initial detection: the seven blocks in program order, starting from \<open>s_init\<close>.\<close>

definition detect :: "env \<Rightarrow> js_error + summary" where
  "detect e =
     seq (detect_ls e s_init) (\<lambda>s1.
     seq (detect_ss e s1) (\<lambda>s2.
     seq (detect_c e s2) (\<lambda>s3.
     seq (detect_sw e s3) (\<lambda>s4.
     seq (detect_idb e s4) (\<lambda>s5.
     seq (detect_ck e s5) (\<lambda>s6.
     detect_est e s6))))))"

section \<open>Re-detection: \<open>updateStats\<close>\<close>

text \<open>
  The three counts taken before the display is touched. The \<open>if\<close> conditions are
  evaluated outside the \<open>try\<close> blocks, as in the source; inside a \<open>try\<close> the object is
  read again. A caught failure leaves the count at its initial 0.
\<close>

definition upd_caches :: "env \<Rightarrow> js_error + nat" where
  "upd_caches e =
     (if has_prop (caches e) then
        try_catch
          (seq (global_ref (caches e)) (\<lambda>v.
           seq (deref v) (\<lambda>c.
           seq (caches_keys c) (\<lambda>ks.
           Inr (length ks)))))
          (\<lambda>_. Inr 0)
      else Inr 0)"

definition upd_sw :: "env \<Rightarrow> js_error + nat" where
  "upd_sw e =
     seq (prop_get (serviceWorker e)) (\<lambda>t.
       case t of
         None \<Rightarrow> Inr 0
       | Some _ \<Rightarrow>
           try_catch
             (seq (prop_get (serviceWorker e)) (\<lambda>v.
              seq (deref v) (\<lambda>c.
              seq (getRegistrations c) (\<lambda>rs.
              Inr (length rs)))))
             (\<lambda>_. Inr 0))"

definition upd_idb :: "env \<Rightarrow> js_error + nat" where
  "upd_idb e =
     seq (global_ref (indexedDB e)) (\<lambda>t.
     seq (deref t) (\<lambda>f0.
       if has_databases f0 then
         try_catch
           (seq (global_ref (indexedDB e)) (\<lambda>v.
            seq (deref v) (\<lambda>f.
            seq (databases f) (\<lambda>ds.
            Inr (length ds)))))
           (\<lambda>_. Inr 0)
       else Inr 0))"

definition upd_ls :: "env \<Rightarrow> js_error + nat" where
  "upd_ls e =
     try_catch
       (seq (global_ref (localStorage e)) (\<lambda>v.
        seq (deref v) (\<lambda>st.
        Inr (storage_length st))))
       (\<lambda>_. Inr 0)"

definition upd_ss :: "env \<Rightarrow> js_error + nat" where
  "upd_ss e =
     try_catch
       (seq (global_ref (sessionStorage e)) (\<lambda>v.
        seq (deref v) (\<lambda>st.
        Inr (storage_length st))))
       (\<lambda>_. Inr 0)"

definition upd_cookie :: "env \<Rightarrow> js_error + nat" where
  "upd_cookie e =
     try_catch
       (seq (prop_get (document_cookie e)) (\<lambda>v.
        case v of
          None \<Rightarrow> Inr 0
        | Some st \<Rightarrow>
            Inr (if truthy (cookie_string st) \<and> truthy (trim (cookie_string st))
                 then count_segments (cookie_string st)
                 else 0)))
       (\<lambda>_. Inr 0)"

text \<open>
  \<open>row(a, b)\<close> is kept as the pair of its label and its value; \<open>stats.innerHTML\<close> is
  the list of the six rows. The overlay is taken to be attached to the document, so that
  \<open>getElementById("stats")\<close> finds its element.
\<close>

definition row :: "jsstring \<Rightarrow> nat \<Rightarrow> jsstring \<times> nat" where
  "row a b = (a, b)"

definition updateStats :: "env \<Rightarrow> js_error + (jsstring \<times> nat) list" where
  "updateStats e =
     seq (upd_caches e) (\<lambda>cachesCount.
     seq (upd_sw e) (\<lambda>swCount.
     seq (upd_idb e) (\<lambda>idbCount.
     seq (upd_ls e) (\<lambda>lsCount.
     seq (upd_ss e) (\<lambda>ssCount.
     seq (upd_cookie e) (\<lambda>cookieCount.
     Inr [row (js ''localStorage items'') lsCount,
          row (js ''sessionStorage items'') ssCount,
          row (js ''Cache Storage entries'') cachesCount,
          row (js ''Service workers'') swCount,
          row (js ''IndexedDB databases'') idbCount,
          row (js ''Cookies (visible)'') cookieCount]))))))"

section \<open>The cookie store of the host\<close>

text \<open>
  What the browser does with a string assigned to \<open>document.cookie\<close>, after RFC 6265
  (sections 5.1.4, 5.2 and 5.3), as far as the script uses it: the first \<open>;\<close>-separated
  piece is \<open>name=value\<close>, the others are attributes, of which the last with a given name
  counts; a leading dot of the \<open>domain\<close> attribute is dropped; a cookie is identified by
  its name, domain and path; storing a cookie that has already expired removes the stored
  cookie with the same identity. Only the \<open>domain\<close>, \<open>path\<close> and \<open>expires\<close>
  attributes are read, and the only date understood is the one the script writes, which
  lies in the past; any other value is taken as a date still to come.
\<close>

definition slash :: "16 word" where
  "slash = 0x2F"

definition dot :: "16 word" where
  "dot = 0x2E"

definition to_lower :: "16 word \<Rightarrow> 16 word" where
  "to_lower c = (if 0x41 \<le> c \<and> c \<le> 0x5A then c + 0x20 else c)"

definition before_eq :: "jsstring \<Rightarrow> jsstring" where
  "before_eq s = takeWhile (\<lambda>c. c \<noteq> equals_sign) s"

definition after_eq :: "jsstring \<Rightarrow> jsstring" where
  "after_eq s = drop 1 (dropWhile (\<lambda>c. c \<noteq> equals_sign) s)"

definition attr_value :: "jsstring \<Rightarrow> jsstring list \<Rightarrow> jsstring option" where
  "attr_value name attrs =
     (case filter (\<lambda>a. map to_lower (trim (before_eq a)) = name) attrs of
        [] \<Rightarrow> None
      | x # xs \<Rightarrow> Some (trim (after_eq (last (x # xs)))))"

definition default_path :: "jsstring \<Rightarrow> jsstring" where
  "default_path p =
     (if p = [] \<or> hd p \<noteq> slash then [slash]
      else (let d = rev (drop 1 (dropWhile (\<lambda>c. c \<noteq> slash) (rev p)))
            in if d = [] then [slash] else d))"

definition domain_match :: "jsstring \<Rightarrow> jsstring \<Rightarrow> bool" where
  "domain_match host d = (host = d \<or> suffix (dot # d) host)"

text \<open>The domain and the path a cookie is stored under, from its attributes.\<close>

definition cookie_domain :: "jsstring \<Rightarrow> jsstring option \<Rightarrow> jsstring" where
  "cookie_domain host a =
     (case a of
        None \<Rightarrow> host
      | Some d \<Rightarrow>
          (if d = [] then host else map to_lower (if hd d = dot then tl d else d)))"

definition cookie_path :: "jsstring \<Rightarrow> jsstring option \<Rightarrow> jsstring" where
  "cookie_path pathname a =
     (case a of
        None \<Rightarrow> default_path pathname
      | Some p \<Rightarrow> (if p = [] \<or> hd p \<noteq> slash then default_path pathname else p))"

definition same_cookie :: "cookie \<Rightarrow> cookie \<Rightarrow> bool" where
  "same_cookie c c' =
     (ck_name c' = ck_name c \<and> ck_domain c' = ck_domain c \<and> ck_path c' = ck_path c)"

text \<open>
  Storing a parsed cookie: refused when the page's host does not match the cookie's
  domain; otherwise the stored cookie of the same identity goes, and the new one is kept
  unless it has expired.
\<close>

definition store_cookie :: "jsstring \<Rightarrow> bool \<Rightarrow> cookie \<Rightarrow> cookie list \<Rightarrow> cookie list" where
  "store_cookie host expired c cs =
     (if \<not> domain_match host (ck_domain c) then cs
      else if expired then filter (\<lambda>c'. \<not> same_cookie c c') cs
      else filter (\<lambda>c'. \<not> same_cookie c c') cs @ [c])"

text \<open>
  The pieces of the assigned string: a first piece without \<open>=\<close> or without a name is
  ignored.
\<close>

definition set_parsed :: "jsstring \<Rightarrow> jsstring \<Rightarrow> jsstring list \<Rightarrow> cookie list \<Rightarrow> cookie list" where
  "set_parsed host pathname segs cs =
     (if equals_sign \<notin> set (hd segs) \<or> trim (before_eq (hd segs)) = [] then cs
      else store_cookie host
             (attr_value (js ''expires'') (tl segs)
                = Some (js ''Thu, 01 Jan 1970 00:00:00 GMT''))
             \<lparr>ck_name = trim (before_eq (hd segs)),
              ck_value = trim (after_eq (hd segs)),
              ck_domain = cookie_domain host (attr_value (js ''domain'') (tl segs)),
              ck_path = cookie_path pathname (attr_value (js ''path'') (tl segs))\<rparr>
             cs)"

definition cookie_set :: "jsstring \<Rightarrow> jsstring \<Rightarrow> jsstring \<Rightarrow> cookie list \<Rightarrow> cookie list" where
  "cookie_set host pathname str cs = set_parsed host pathname (split_on semicolon str) cs"

text \<open>The statement \<open>document.cookie = str\<close>.\<close>

definition assign_cookie :: "jsstring \<Rightarrow> jsstring \<Rightarrow> jsstring \<Rightarrow> cookie_store \<Rightarrow> cookie_store" where
  "assign_cookie host pathname str st =
     st\<lparr>jar := cookie_set host pathname str (jar st), assigned := assigned st @ [str]\<rparr>"

section \<open>\<open>clearCookies\<close>\<close>

text \<open>The body of the innermost loop: the two assignments for one name, domain and path.\<close>

definition expire_one ::
  "jsstring \<Rightarrow> jsstring \<Rightarrow> jsstring \<Rightarrow> jsstring \<Rightarrow> jsstring \<Rightarrow> cookie_store \<Rightarrow> cookie_store" where
  "expire_one host pathname n dmn path st =
     assign_cookie host pathname
       (n @ js ''=; expires=Thu, 01 Jan 1970 00:00:00 GMT; path='' @ path)
       (assign_cookie host pathname
          (n @ js ''=; expires=Thu, 01 Jan 1970 00:00:00 GMT; path='' @ path
             @ js ''; domain='' @ dmn)
          st)"

text \<open>\<open>for (const path of ["/", location.pathname])\<close>.\<close>

definition expire_paths ::
  "jsstring \<Rightarrow> jsstring \<Rightarrow> jsstring \<Rightarrow> jsstring \<Rightarrow> cookie_store \<Rightarrow> cookie_store" where
  "expire_paths host pathname n dmn st =
     fold (expire_one host pathname n dmn) [js ''/'', pathname] st"

text \<open>\<open>for (const dmn of [location.hostname, "." + location.hostname])\<close>.\<close>

definition expire_name ::
  "jsstring \<Rightarrow> jsstring \<Rightarrow> jsstring \<Rightarrow> cookie_store \<Rightarrow> cookie_store" where
  "expire_name host pathname n st =
     fold (expire_paths host pathname n) [host, js ''.'' @ host] st"

text \<open>
  \<open>for (const c of cookies)\<close>, with its two \<open>continue\<close> statements. \<open>split\<close> never
  returns an empty array, so element 0 exists.
\<close>

fun clear_loop :: "jsstring \<Rightarrow> jsstring \<Rightarrow> jsstring list \<Rightarrow> cookie_store \<Rightarrow> cookie_store" where
  "clear_loop host pathname [] st = st"
| "clear_loop host pathname (c # cs) st =
     (let trimmed = trim c in
      if \<not> truthy trimmed then clear_loop host pathname cs st
      else (let n = trim (hd (split_on equals_sign trimmed)) in
            if \<not> truthy n then clear_loop host pathname cs st
            else clear_loop host pathname cs (expire_name host pathname n st)))"

text \<open>
  \<open>clearCookies\<close>: the result is how the call completes, with the environment as the
  call leaves it.
\<close>

definition clearCookies :: "env \<Rightarrow> (js_error + unit) \<times> env" where
  "clearCookies e =
     (case prop_get (document_cookie e) of
        Inl err \<Rightarrow> (Inl err, e)
      | Inr None \<Rightarrow> (Inr (), e)
      | Inr (Some st) \<Rightarrow>
          (if \<not> truthy (cookie_string st) \<or> trim (cookie_string st) = [] then (Inr (), e)
           else (Inr (),
                 e\<lparr>document_cookie :=
                     Obj (clear_loop (location_hostname e) (location_pathname e)
                            (split_on semicolon (cookie_string st)) st)\<rparr>)))"

section \<open>The overlay's checkboxes\<close>

text \<open>
  \<open>chk(i, l, d, x)\<close>: the markup of one option. The number \<open>.5\<close> prints as
  \<open>0.5\<close> in a template literal.
\<close>

definition chk :: "jsstring \<Rightarrow> jsstring \<Rightarrow> jsstring \<Rightarrow> bool \<Rightarrow> jsstring" where
  \<open>chk i l d x =
     js ''<label style="display:block;margin:12px 0;opacity:''
     @ (if x then js ''0.5'' else js ''1'')
     @ js ''"><input type="checkbox" id="'' @ i @ js ''" ''
     @ (if x then js ''disabled'' else [])
     @ js '' style="margin-right:8px"><strong>'' @ l
     @ js ''</strong><div style="font-size:13px;opacity:.75;margin-left:22px">'' @ d
     @ js ''</div></label>''\<close>

text \<open>The five \<open>chk\<close> calls of the overlay's markup, in their order.\<close>

definition checkbox_list :: "summary \<Rightarrow> jsstring list" where
  "checkbox_list s =
     [chk (js ''l'') (js ''Clear localStorage'')
        (js ''Small saved values used by the site.'') (s_ls s = 0),
      chk (js ''s'') (js ''Clear sessionStorage'')
        (js ''Temporary tab memory.'') (s_ss s = 0),
      chk (js ''c'') (js ''Delete Cache Storage'')
        (js ''Stored network responses.'') (s_c s = 0),
      chk (js ''w'') (js ''Unregister service workers'')
        (js ''Background logic that can keep old behavior.'') (s_sw s = 0),
      chk (js ''k'') (js ''Attempt to clear cookies'')
        (js ''Only cookies browsers allow scripts to remove.'') (s_ck s = 0)]"

section \<open>The handler of the "Clear selected" button\<close>

text \<open>
  The \<open>checked\<close> state of the five checkboxes when the button is clicked, as
  \<open>getElementById\<close> reads them from the attached overlay.
\<close>

record checks =
  chk_l :: bool
  chk_s :: bool
  chk_c :: bool
  chk_w :: bool
  chk_k :: bool

text \<open>\<open>caches.delete(k)\<close>: rejects, or removes the cache and says whether it was there.\<close>

definition caches_delete :: "jsstring \<Rightarrow> cache_storage \<Rightarrow> (js_error + bool) \<times> cache_storage" where
  "caches_delete k c =
     (if k \<in> set (delete_rejects c) then (Inl DOMException, c)
      else (Inr (k \<in> set (cache_names c)), c\<lparr>cache_names := removeAll k (cache_names c)\<rparr>))"

text \<open>\<open>r.unregister()\<close>: rejects, or removes the registration.\<close>

definition unregister :: "jsstring \<Rightarrow> sw_container \<Rightarrow> (js_error + bool) \<times> sw_container" where
  "unregister r c =
     (if r \<in> set (unregister_rejects c) then (Inl DOMException, c)
      else (Inr (r \<in> set (registrations c)), c\<lparr>registrations := removeAll r (registrations c)\<rparr>))"

text \<open>\<open>for (const k of ...) { await caches.delete(k); }\<close>: the first rejection ends the loop.\<close>

fun delete_each :: "jsstring list \<Rightarrow> cache_storage \<Rightarrow> (js_error + unit) \<times> cache_storage" where
  "delete_each [] c = (Inr (), c)"
| "delete_each (k # ks) c =
     (case caches_delete k c of
        (Inl err, c') \<Rightarrow> (Inl err, c')
      | (Inr _, c') \<Rightarrow> delete_each ks c')"

fun unregister_each :: "jsstring list \<Rightarrow> sw_container \<Rightarrow> (js_error + unit) \<times> sw_container" where
  "unregister_each [] c = (Inr (), c)"
| "unregister_each (r # rs) c =
     (case unregister r c of
        (Inl err, c') \<Rightarrow> (Inl err, c')
      | (Inr _, c') \<Rightarrow> unregister_each rs c')"

text \<open>
  The bodies of the five \<open>try\<close> blocks, up to the \<open>log.push\<close> of the success line:
  how the body completes, and the environment it leaves.
\<close>

definition clear_ls_body :: "env \<Rightarrow> (js_error + unit) \<times> env" where
  "clear_ls_body e =
     (case seq (global_ref (localStorage e)) deref of
        Inl err \<Rightarrow> (Inl err, e)
      | Inr st \<Rightarrow> (Inr (), e\<lparr>localStorage := Obj (storage_clear st)\<rparr>))"

definition clear_ss_body :: "env \<Rightarrow> (js_error + unit) \<times> env" where
  "clear_ss_body e =
     (case seq (global_ref (sessionStorage e)) deref of
        Inl err \<Rightarrow> (Inl err, e)
      | Inr st \<Rightarrow> (Inr (), e\<lparr>sessionStorage := Obj (storage_clear st)\<rparr>))"

definition clear_c_body :: "env \<Rightarrow> (js_error + unit) \<times> env" where
  "clear_c_body e =
     (case seq (global_ref (caches e)) deref of
        Inl err \<Rightarrow> (Inl err, e)
      | Inr c \<Rightarrow>
          (case caches_keys c of
             Inl err \<Rightarrow> (Inl err, e)
           | Inr ks \<Rightarrow>
               (case delete_each ks c of
                  (r, c') \<Rightarrow> (r, e\<lparr>caches := Obj c'\<rparr>))))"

definition clear_sw_body :: "env \<Rightarrow> (js_error + unit) \<times> env" where
  "clear_sw_body e =
     (case seq (prop_get (serviceWorker e)) deref of
        Inl err \<Rightarrow> (Inl err, e)
      | Inr c \<Rightarrow>
          (case getRegistrations c of
             Inl err \<Rightarrow> (Inl err, e)
           | Inr rs \<Rightarrow>
               (case unregister_each rs c of
                  (r, c') \<Rightarrow> (r, e\<lparr>serviceWorker := Obj c'\<rparr>))))"

text \<open>
  One guarded block of the handler: when the checkbox is checked, the body runs and the
  \<open>try\<close> pushes the success line, the \<open>catch\<close> the failure line.
\<close>

definition guarded ::
  "bool \<Rightarrow> (env \<Rightarrow> (js_error + unit) \<times> env) \<Rightarrow> jsstring \<Rightarrow> jsstring
     \<Rightarrow> env \<times> jsstring list \<Rightarrow> env \<times> jsstring list" where
  "guarded checked body ok_line fail_line = (\<lambda>(e, log).
     if checked then
       (case body e of
          (Inr _, e') \<Rightarrow> (e', log @ [ok_line])
        | (Inl _, e') \<Rightarrow> (e', log @ [fail_line]))
     else (e, log))"

definition run_ls :: "checks \<Rightarrow> env \<times> jsstring list \<Rightarrow> env \<times> jsstring list" where
  "run_ls sel = guarded (chk_l sel) clear_ls_body
     (js ''localStorage cleared'') (js ''localStorage failed'')"

definition run_ss :: "checks \<Rightarrow> env \<times> jsstring list \<Rightarrow> env \<times> jsstring list" where
  "run_ss sel = guarded (chk_s sel) clear_ss_body
     (js ''sessionStorage cleared'') (js ''sessionStorage failed'')"

definition run_c :: "checks \<Rightarrow> env \<times> jsstring list \<Rightarrow> env \<times> jsstring list" where
  "run_c sel = guarded (chk_c sel) clear_c_body
     (js ''Cache Storage cleared'') (js ''Cache Storage failed'')"

definition run_sw :: "checks \<Rightarrow> env \<times> jsstring list \<Rightarrow> env \<times> jsstring list" where
  "run_sw sel = guarded (chk_w sel) clear_sw_body
     (js ''Service workers unregistered'') (js ''Service workers failed'')"

definition run_ck :: "checks \<Rightarrow> env \<times> jsstring list \<Rightarrow> env \<times> jsstring list" where
  "run_ck sel = guarded (chk_k sel) clearCookies
     (js ''Cookie cleanup attempted'') (js ''Cookie cleanup failed'')"

text \<open>The five blocks in program order, starting from the empty log.\<close>

definition run_clear :: "checks \<Rightarrow> env \<Rightarrow> env \<times> jsstring list" where
  "run_clear sel e = run_ck sel (run_sw sel (run_c sel (run_ss sel (run_ls sel (e, [])))))"

text \<open>\<open>outDiv.innerHTML\<close>; the bullet is U+2022.\<close>

definition render_out :: "jsstring list \<Rightarrow> jsstring" where
  \<open>render_out log =
     (if length log = 0 then
        js ''<div style='margin-top:8px;opacity:.7'>No items selected for clearing.</div>''
      else
        js ''<div style='margin-top:8px'><strong>Results:</strong><br>''
        @ join (js ''<br>'') (map (\<lambda>x. [0x2022, 0x20] @ x) log)
        @ js ''</div>'')\<close>

text \<open>
  What a click leaves behind: the environment, the log, the result area, and how the
  final \<open>await updateStats()\<close> completes (the rows it displays, or the error the
  handler's promise rejects with).
\<close>

record run_result =
  r_env :: env
  r_log :: "jsstring list"
  r_out :: jsstring
  r_stats :: "js_error + (jsstring \<times> nat) list"

definition run_onclick :: "checks \<Rightarrow> env \<Rightarrow> run_result" where
  "run_onclick sel e =
     (case run_clear sel e of
        (e', log) \<Rightarrow>
          \<lparr>r_env = e', r_log = log, r_out = render_out log, r_stats = updateStats e'\<rparr>)"

section \<open>Notions used to state the properties\<close>

text \<open>How a statement completed: with an error or not.\<close>

definition throws :: "js_error + 'a \<Rightarrow> bool" where
  "throws r = (case r of Inl _ \<Rightarrow> True | Inr _ \<Rightarrow> False)"

text \<open>
  The cookie count as the specification words it: the number of \<open>;\<close>-separated
  segments containing a non-whitespace character. It is counted by reading the string
  once: a segment ends at each \<open>;\<close> and at the end of the string, and it counts when
  a non-whitespace character has been read since it began (\<open>seen\<close>).
\<close>

fun spec_count_scan :: "bool \<Rightarrow> jsstring \<Rightarrow> nat" where
  "spec_count_scan seen [] = (if seen then 1 else 0)"
| "spec_count_scan seen (c # cs) =
     (if c = semicolon then (if seen then 1 else 0) + spec_count_scan False cs
      else spec_count_scan (seen \<or> \<not> is_ws c) cs)"

definition spec_cookie_count :: "jsstring \<Rightarrow> nat" where
  "spec_cookie_count str = spec_count_scan False str"



text \<open>
  Whether the markup of a checkbox carries a given piece of text, such as the
  \<open>disabled\<close> attribute or its \<open>id\<close>.
\<close>

definition markup_has :: "jsstring \<Rightarrow> jsstring \<Rightarrow> bool" where
  "markup_has piece m = sublist piece m"

subsection \<open>Sample pages\<close>

text \<open>
  A page at \<open>http://a.io/b/c\<close> with one entry on every surface; its cookie is stored
  for the host with path \<open>/\<close>.
\<close>

definition demo_env :: env where
  "demo_env =
     \<lparr>localStorage = Obj [(js ''theme'', js ''dark'')],
      sessionStorage = Obj [(js ''tab'', js ''1'')],
      caches = Obj \<lparr>cache_names = [js ''v1''], keys_rejects = False, delete_rejects = []\<rparr>,
      serviceWorker = Obj \<lparr>registrations = [js ''/''], getRegistrations_rejects = False,
                          unregister_rejects = []\<rparr>,
      indexedDB = Obj \<lparr>has_databases = True, databases_rejects = False,
                      idb_databases = [js ''db1'']\<rparr>,
      document_cookie = Obj \<lparr>jar = [\<lparr>ck_name = js ''sid'', ck_value = js ''42'',
                                      ck_domain = js ''a.io'', ck_path = js ''/''\<rparr>],
                            assigned = []\<rparr>,
      navigator_storage = NotPresent,
      location_hostname = js ''a.io'',
      location_pathname = js ''/b/c''\<rparr>"

text \<open>The same page in a browser without IndexedDB.\<close>

definition no_idb_env :: env where
  "no_idb_env = demo_env\<lparr>indexedDB := NotPresent\<rparr>"

text \<open>The same page with every surface empty.\<close>

definition empty_env :: env where
  "empty_env =
     demo_env\<lparr>localStorage := Obj [], sessionStorage := Obj [],
       caches := Obj \<lparr>cache_names = [], keys_rejects = False, delete_rejects = []\<rparr>,
       serviceWorker := Obj \<lparr>registrations = [], getRegistrations_rejects = False,
                            unregister_rejects = []\<rparr>,
       document_cookie := Obj \<lparr>jar = [], assigned = []\<rparr>\<rparr>"

text \<open>
  The same page whose only cookie was stored with path \<open>/b\<close>, the path of a cookie
  that the page \<open>/b/c\<close> sets without a path attribute.
\<close>

definition path_cookie_env :: env where
  "path_cookie_env =
     demo_env\<lparr>document_cookie :=
       Obj \<lparr>jar = [\<lparr>ck_name = js ''p'', ck_value = js ''x'',
                    ck_domain = js ''a.io'', ck_path = js ''/b''\<rparr>],
            assigned = []\<rparr>\<rparr>"

text \<open>The same page with two cookies, so that \<open>document.cookie\<close> is \<open>a=1; b=2\<close>.\<close>

definition two_cookie_env :: env where
  "two_cookie_env =
     demo_env\<lparr>document_cookie :=
       Obj \<lparr>jar = [\<lparr>ck_name = js ''a'', ck_value = js ''1'',
                    ck_domain = js ''a.io'', ck_path = js ''/''\<rparr>,
                   \<lparr>ck_name = js ''b'', ck_value = js ''2'',
                    ck_domain = js ''a.io'', ck_path = js ''/b/c''\<rparr>],
            assigned = []\<rparr>\<rparr>"

definition all_checked :: checks where
  "all_checked = \<lparr>chk_l = True, chk_s = True, chk_c = True, chk_w = True, chk_k = True\<rparr>"

definition none_checked :: checks where
  "none_checked = \<lparr>chk_l = False, chk_s = False, chk_c = False, chk_w = False, chk_k = False\<rparr>"

definition only_w :: checks where
  "only_w = none_checked\<lparr>chk_w := True\<rparr>"

definition only_k :: checks where
  "only_k = none_checked\<lparr>chk_k := True\<rparr>"

section \<open>Auxiliary facts\<close>

lemma split_on_not_Nil: "split_on sep s \<noteq> []"
  by (induction s) (auto split: list.splits)

lemma trim_Nil_iff: "trim s = [] \<longleftrightarrow> list_all is_ws s"
proof
  assume "trim s = []"
  then have "dropWhile is_ws (rev (dropWhile is_ws s)) = []"
    by (simp add: trim_def)
  then have a: "\<forall>x \<in> set (dropWhile is_ws s). is_ws x"
    by (simp add: dropWhile_eq_Nil_conv)
  have "dropWhile is_ws s = []"
  proof (cases "dropWhile is_ws s")
    case Nil
    then show ?thesis .
  next
    case (Cons x xs)
    then have "\<not> is_ws x"
      using hd_dropWhile [of is_ws s] by simp
    with a Cons show ?thesis by simp
  qed
  then show "list_all is_ws s"
    by (simp add: dropWhile_eq_Nil_conv list_all_iff)
next
  assume "list_all is_ws s"
  then have "dropWhile is_ws s = []"
    by (simp add: dropWhile_eq_Nil_conv list_all_iff)
  then show "trim s = []"
    unfolding trim_def by (simp only: rev.simps dropWhile.simps)
qed

text \<open>
  \<open>split_on\<close> gives the pieces between the separators: joined by the separator they
  give the string back, and no piece contains the separator.
\<close>

lemma join_Cons: "ps \<noteq> [] \<Longrightarrow> join sep (p # ps) = p @ sep @ join sep ps"
  by (cases ps) simp_all

lemma join_split_on: "join [sep] (split_on sep s) = s"
proof (induction s)
  case Nil
  show ?case by simp
next
  case (Cons c s)
  obtain p ps where sp: "split_on sep s = p # ps"
    using split_on_not_Nil [of sep s] by (cases "split_on sep s") auto
  show ?case
  proof (cases "c = sep")
    case True
    with Cons show ?thesis by (simp add: join_Cons split_on_not_Nil)
  next
    case False
    with Cons sp show ?thesis by (cases ps) simp_all
  qed
qed

lemma split_on_no_sep: "p \<in> set (split_on sep s) \<Longrightarrow> sep \<notin> set p"
proof (induction s arbitrary: p)
  case Nil
  then show ?case by simp
next
  case (Cons c s)
  obtain q qs where sp: "split_on sep s = q # qs"
    using split_on_not_Nil [of sep s] by (cases "split_on sep s") auto
  show ?case
  proof (cases "c = sep")
    case True
    with Cons show ?thesis by auto
  next
    case False
    with Cons.prems sp have "p = c # q \<or> p \<in> set qs" by simp
    then show ?thesis
    proof
      assume "p = c # q"
      moreover have "sep \<notin> set q" using Cons.IH [of q] sp by simp
      ultimately show ?thesis using False by auto
    next
      assume "p \<in> set qs"
      then show ?thesis using Cons.IH [of p] sp by simp
    qed
  qed
qed

text \<open>The scan counts what the filter over the pieces counts.\<close>

lemma scan_split_on:
  "spec_count_scan seen s =
     (if seen \<or> \<not> list_all is_ws (hd (split_on semicolon s)) then 1 else 0)
     + length (filter (\<lambda>p. \<not> list_all is_ws p) (tl (split_on semicolon s)))"
proof (induction s arbitrary: seen)
  case Nil
  show ?case by simp
next
  case (Cons c s)
  obtain p ps where sp: "split_on semicolon s = p # ps"
    using split_on_not_Nil [of semicolon s] by (cases "split_on semicolon s") auto
  show ?case
  proof (cases "c = semicolon")
    case True
    with Cons [of False] sp show ?thesis by simp
  next
    case False
    with Cons [of "seen \<or> \<not> is_ws c"] sp show ?thesis by auto
  qed
qed

lemma scan_blank: "list_all is_ws s \<Longrightarrow> spec_count_scan False s = 0"
proof (induction s)
  case Nil
  show ?case by simp
next
  case (Cons c s)
  then have "is_ws c" by simp
  moreover have "c \<noteq> semicolon" if "is_ws c"
    using that by (auto simp: is_ws_def semicolon_def)
  ultimately show ?case using Cons by simp
qed

lemma count_segments_spec:
  "(if truthy str \<and> truthy (trim str) then count_segments str else 0) = spec_cookie_count str"
proof (cases "list_all is_ws str")
  case True
  then show ?thesis
    by (simp add: truthy_def trim_Nil_iff spec_cookie_count_def scan_blank)
next
  case False
  then have ne: "str \<noteq> []" by auto
  obtain p ps where sp: "split_on semicolon str = p # ps"
    using split_on_not_Nil [of semicolon str] by (cases "split_on semicolon str") auto
  from False ne sp show ?thesis
    by (simp add: truthy_def trim_Nil_iff spec_cookie_count_def count_segments_def
          scan_split_on [of False str])
qed

lemma spec_cookie_count_blank:
  "str = [] \<or> list_all is_ws str \<Longrightarrow> spec_cookie_count str = 0"
  by (auto simp: spec_cookie_count_def scan_blank)


lemma trim_empty [simp]: "trim [] = []"
  by (simp add: trim_def)





lemma guarded_eq:
  "guarded b body ok fail (e, log) =
     (if b then (snd (body e), log @ [if throws (fst (body e)) then fail else ok])
      else (e, log))"
  by (cases "body e") (auto simp: guarded_def throws_def split: sum.splits)

lemma delete_each_frame:
  "keys_rejects (snd (delete_each ks c)) = keys_rejects c
   \<and> delete_rejects (snd (delete_each ks c)) = delete_rejects c"
  by (induction ks arbitrary: c) (auto simp: caches_delete_def)

lemma unregister_each_frame:
  "getRegistrations_rejects (snd (unregister_each rs c)) = getRegistrations_rejects c
   \<and> unregister_rejects (snd (unregister_each rs c)) = unregister_rejects c"
  by (induction rs arbitrary: c) (auto simp: unregister_def)

lemma clear_ls_body_frame:
  "snd (clear_ls_body e) = e\<lparr>localStorage := localStorage (snd (clear_ls_body e))\<rparr>"
  by (cases "localStorage e") (simp_all add: clear_ls_body_def seq_def)

lemma clear_ss_body_frame:
  "snd (clear_ss_body e) = e\<lparr>sessionStorage := sessionStorage (snd (clear_ss_body e))\<rparr>"
  by (cases "sessionStorage e") (simp_all add: clear_ss_body_def seq_def)

lemma clear_c_body_frame:
  "snd (clear_c_body e) = e\<lparr>caches := caches (snd (clear_c_body e))\<rparr>"
  by (cases "caches e") (simp_all add: clear_c_body_def seq_def split: sum.splits prod.splits)

lemma clear_sw_body_frame:
  "snd (clear_sw_body e) = e\<lparr>serviceWorker := serviceWorker (snd (clear_sw_body e))\<rparr>"
  by (cases "serviceWorker e") (simp_all add: clear_sw_body_def seq_def split: sum.splits prod.splits)

lemma clearCookies_frame:
  "snd (clearCookies e) = e\<lparr>document_cookie := document_cookie (snd (clearCookies e))\<rparr>"
  by (cases "document_cookie e") (simp_all add: clearCookies_def)

text \<open>Each body reads only its own surface (and, for cookies, the location).\<close>

lemma clear_ls_body_cong:
  "localStorage e' = localStorage e \<Longrightarrow>
   fst (clear_ls_body e') = fst (clear_ls_body e)
   \<and> localStorage (snd (clear_ls_body e')) = localStorage (snd (clear_ls_body e))"
  by (cases "localStorage e") (simp_all add: clear_ls_body_def seq_def)

lemma clear_ss_body_cong:
  "sessionStorage e' = sessionStorage e \<Longrightarrow>
   fst (clear_ss_body e') = fst (clear_ss_body e)
   \<and> sessionStorage (snd (clear_ss_body e')) = sessionStorage (snd (clear_ss_body e))"
  by (cases "sessionStorage e") (simp_all add: clear_ss_body_def seq_def)

lemma clear_c_body_cong:
  "caches e' = caches e \<Longrightarrow>
   fst (clear_c_body e') = fst (clear_c_body e)
   \<and> caches (snd (clear_c_body e')) = caches (snd (clear_c_body e))"
  by (cases "caches e") (simp_all add: clear_c_body_def seq_def split: sum.splits prod.splits)

lemma clear_sw_body_cong:
  "serviceWorker e' = serviceWorker e \<Longrightarrow>
   fst (clear_sw_body e') = fst (clear_sw_body e)
   \<and> serviceWorker (snd (clear_sw_body e')) = serviceWorker (snd (clear_sw_body e))"
  by (cases "serviceWorker e") (simp_all add: clear_sw_body_def seq_def split: sum.splits prod.splits)

lemma clearCookies_cong:
  "document_cookie e' = document_cookie e \<Longrightarrow> location_hostname e' = location_hostname e \<Longrightarrow>
   location_pathname e' = location_pathname e \<Longrightarrow>
   fst (clearCookies e') = fst (clearCookies e)
   \<and> document_cookie (snd (clearCookies e')) = document_cookie (snd (clearCookies e))"
  by (cases "document_cookie e") (simp_all add: clearCookies_def)

lemma clear_ls_body_others:
  "sessionStorage (snd (clear_ls_body e)) = sessionStorage e"
  "caches (snd (clear_ls_body e)) = caches e"
  "serviceWorker (snd (clear_ls_body e)) = serviceWorker e"
  "indexedDB (snd (clear_ls_body e)) = indexedDB e"
  "document_cookie (snd (clear_ls_body e)) = document_cookie e"
  "navigator_storage (snd (clear_ls_body e)) = navigator_storage e"
  "location_hostname (snd (clear_ls_body e)) = location_hostname e"
  "location_pathname (snd (clear_ls_body e)) = location_pathname e"
  by (subst clear_ls_body_frame, simp)+

lemma clear_ss_body_others:
  "localStorage (snd (clear_ss_body e)) = localStorage e"
  "caches (snd (clear_ss_body e)) = caches e"
  "serviceWorker (snd (clear_ss_body e)) = serviceWorker e"
  "indexedDB (snd (clear_ss_body e)) = indexedDB e"
  "document_cookie (snd (clear_ss_body e)) = document_cookie e"
  "navigator_storage (snd (clear_ss_body e)) = navigator_storage e"
  "location_hostname (snd (clear_ss_body e)) = location_hostname e"
  "location_pathname (snd (clear_ss_body e)) = location_pathname e"
  by (subst clear_ss_body_frame, simp)+

lemma clear_c_body_others:
  "localStorage (snd (clear_c_body e)) = localStorage e"
  "sessionStorage (snd (clear_c_body e)) = sessionStorage e"
  "serviceWorker (snd (clear_c_body e)) = serviceWorker e"
  "indexedDB (snd (clear_c_body e)) = indexedDB e"
  "document_cookie (snd (clear_c_body e)) = document_cookie e"
  "navigator_storage (snd (clear_c_body e)) = navigator_storage e"
  "location_hostname (snd (clear_c_body e)) = location_hostname e"
  "location_pathname (snd (clear_c_body e)) = location_pathname e"
  by (subst clear_c_body_frame, simp)+

lemma clear_sw_body_others:
  "localStorage (snd (clear_sw_body e)) = localStorage e"
  "sessionStorage (snd (clear_sw_body e)) = sessionStorage e"
  "caches (snd (clear_sw_body e)) = caches e"
  "indexedDB (snd (clear_sw_body e)) = indexedDB e"
  "document_cookie (snd (clear_sw_body e)) = document_cookie e"
  "navigator_storage (snd (clear_sw_body e)) = navigator_storage e"
  "location_hostname (snd (clear_sw_body e)) = location_hostname e"
  "location_pathname (snd (clear_sw_body e)) = location_pathname e"
  by (subst clear_sw_body_frame, simp)+

lemma clearCookies_others:
  "localStorage (snd (clearCookies e)) = localStorage e"
  "sessionStorage (snd (clearCookies e)) = sessionStorage e"
  "caches (snd (clearCookies e)) = caches e"
  "serviceWorker (snd (clearCookies e)) = serviceWorker e"
  "indexedDB (snd (clearCookies e)) = indexedDB e"
  "navigator_storage (snd (clearCookies e)) = navigator_storage e"
  "location_hostname (snd (clearCookies e)) = location_hostname e"
  "location_pathname (snd (clearCookies e)) = location_pathname e"
  by (subst clearCookies_frame, simp)+

lemmas body_others =
  clear_ls_body_others clear_ss_body_others clear_c_body_others clear_sw_body_others
  clearCookies_others

lemma run_clear_eq:
  "run_clear sel e =
     (e\<lparr>localStorage :=
          (if chk_l sel then localStorage (snd (clear_ls_body e)) else localStorage e),
        sessionStorage :=
          (if chk_s sel then sessionStorage (snd (clear_ss_body e)) else sessionStorage e),
        caches :=
          (if chk_c sel then caches (snd (clear_c_body e)) else caches e),
        serviceWorker :=
          (if chk_w sel then serviceWorker (snd (clear_sw_body e)) else serviceWorker e),
        document_cookie :=
          (if chk_k sel then document_cookie (snd (clearCookies e)) else document_cookie e)\<rparr>,
      (if chk_l sel
       then [if throws (fst (clear_ls_body e)) then js ''localStorage failed''
             else js ''localStorage cleared'']
       else [])
      @ (if chk_s sel
         then [if throws (fst (clear_ss_body e)) then js ''sessionStorage failed''
               else js ''sessionStorage cleared'']
         else [])
      @ (if chk_c sel
         then [if throws (fst (clear_c_body e)) then js ''Cache Storage failed''
               else js ''Cache Storage cleared'']
         else [])
      @ (if chk_w sel
         then [if throws (fst (clear_sw_body e)) then js ''Service workers failed''
               else js ''Service workers unregistered'']
         else [])
      @ (if chk_k sel
         then [if throws (fst (clearCookies e)) then js ''Cookie cleanup failed''
               else js ''Cookie cleanup attempted'']
         else []))"
proof -
  define e1 where "e1 = (if chk_l sel then snd (clear_ls_body e) else e)"
  define e2 where "e2 = (if chk_s sel then snd (clear_ss_body e1) else e1)"
  define e3 where "e3 = (if chk_c sel then snd (clear_c_body e2) else e2)"
  define e4 where "e4 = (if chk_w sel then snd (clear_sw_body e3) else e3)"
  define e5 where "e5 = (if chk_k sel then snd (clearCookies e4) else e4)"
  have f1: "sessionStorage e1 = sessionStorage e" "caches e1 = caches e"
    "serviceWorker e1 = serviceWorker e" "document_cookie e1 = document_cookie e"
    "location_hostname e1 = location_hostname e" "location_pathname e1 = location_pathname e"
    "indexedDB e1 = indexedDB e" "navigator_storage e1 = navigator_storage e"
    "localStorage e1 = (if chk_l sel then localStorage (snd (clear_ls_body e)) else localStorage e)"
    by (simp_all add: e1_def body_others)
  note c2 = clear_ss_body_cong [OF f1(1)]
  have f2: "caches e2 = caches e" "serviceWorker e2 = serviceWorker e"
    "document_cookie e2 = document_cookie e"
    "location_hostname e2 = location_hostname e" "location_pathname e2 = location_pathname e"
    "indexedDB e2 = indexedDB e" "navigator_storage e2 = navigator_storage e"
    "localStorage e2 = (if chk_l sel then localStorage (snd (clear_ls_body e)) else localStorage e)"
    "sessionStorage e2 = (if chk_s sel then sessionStorage (snd (clear_ss_body e)) else sessionStorage e)"
    by (simp_all add: e2_def body_others f1 c2)
  note c3 = clear_c_body_cong [OF f2(1)]
  have f3: "serviceWorker e3 = serviceWorker e" "document_cookie e3 = document_cookie e"
    "location_hostname e3 = location_hostname e" "location_pathname e3 = location_pathname e"
    "indexedDB e3 = indexedDB e" "navigator_storage e3 = navigator_storage e"
    "localStorage e3 = (if chk_l sel then localStorage (snd (clear_ls_body e)) else localStorage e)"
    "sessionStorage e3 = (if chk_s sel then sessionStorage (snd (clear_ss_body e)) else sessionStorage e)"
    "caches e3 = (if chk_c sel then caches (snd (clear_c_body e)) else caches e)"
    by (simp_all add: e3_def body_others f2 c3)
  note c4 = clear_sw_body_cong [OF f3(1)]
  have f4: "document_cookie e4 = document_cookie e"
    "location_hostname e4 = location_hostname e" "location_pathname e4 = location_pathname e"
    "indexedDB e4 = indexedDB e" "navigator_storage e4 = navigator_storage e"
    "localStorage e4 = (if chk_l sel then localStorage (snd (clear_ls_body e)) else localStorage e)"
    "sessionStorage e4 = (if chk_s sel then sessionStorage (snd (clear_ss_body e)) else sessionStorage e)"
    "caches e4 = (if chk_c sel then caches (snd (clear_c_body e)) else caches e)"
    "serviceWorker e4 = (if chk_w sel then serviceWorker (snd (clear_sw_body e)) else serviceWorker e)"
    by (simp_all add: e4_def body_others f3 c4)
  note c5 = clearCookies_cong [OF f4(1) f4(2) f4(3)]
  have f5: 
    "location_hostname e5 = location_hostname e" "location_pathname e5 = location_pathname e"
    "indexedDB e5 = indexedDB e" "navigator_storage e5 = navigator_storage e"
    "localStorage e5 = (if chk_l sel then localStorage (snd (clear_ls_body e)) else localStorage e)"
    "sessionStorage e5 = (if chk_s sel then sessionStorage (snd (clear_ss_body e)) else sessionStorage e)"
    "caches e5 = (if chk_c sel then caches (snd (clear_c_body e)) else caches e)"
    "serviceWorker e5 = (if chk_w sel then serviceWorker (snd (clear_sw_body e)) else serviceWorker e)"
    "document_cookie e5 = (if chk_k sel then document_cookie (snd (clearCookies e)) else document_cookie e)"
    by (simp_all add: e5_def body_others f4 c5)
  have env: "e5 =
     e\<lparr>localStorage :=
          (if chk_l sel then localStorage (snd (clear_ls_body e)) else localStorage e),
        sessionStorage :=
          (if chk_s sel then sessionStorage (snd (clear_ss_body e)) else sessionStorage e),
        caches :=
          (if chk_c sel then caches (snd (clear_c_body e)) else caches e),
        serviceWorker :=
          (if chk_w sel then serviceWorker (snd (clear_sw_body e)) else serviceWorker e),
        document_cookie :=
          (if chk_k sel then document_cookie (snd (clearCookies e)) else document_cookie e)\<rparr>"
    by (rule env.equality) (simp_all add: f5)
  have "run_clear sel e =
     (e5,
      (if chk_l sel
       then [if throws (fst (clear_ls_body e)) then js ''localStorage failed''
             else js ''localStorage cleared'']
       else [])
      @ (if chk_s sel
         then [if throws (fst (clear_ss_body e1)) then js ''sessionStorage failed''
               else js ''sessionStorage cleared'']
         else [])
      @ (if chk_c sel
         then [if throws (fst (clear_c_body e2)) then js ''Cache Storage failed''
               else js ''Cache Storage cleared'']
         else [])
      @ (if chk_w sel
         then [if throws (fst (clear_sw_body e3)) then js ''Service workers failed''
               else js ''Service workers unregistered'']
         else [])
      @ (if chk_k sel
         then [if throws (fst (clearCookies e4)) then js ''Cookie cleanup failed''
               else js ''Cookie cleanup attempted'']
         else []))"
    by (simp add: run_clear_def run_ls_def run_ss_def run_c_def run_sw_def run_ck_def
          guarded_eq e1_def e2_def e3_def e4_def e5_def)
  then show ?thesis
    by (simp only: env c2 c3 c4 c5)
qed

lemma delete_each_ok:
  "fst (delete_each ks c) = Inr () \<Longrightarrow>
   snd (delete_each ks c) = c\<lparr>cache_names := filter (\<lambda>n. n \<notin> set ks) (cache_names c)\<rparr>"
proof (induction ks arbitrary: c)
  case Nil
  then show ?case by simp
next
  case (Cons k ks)
  from Cons.prems have nr: "k \<notin> set (delete_rejects c)"
    by (auto simp: caches_delete_def split: if_splits)
  let ?c = "c\<lparr>cache_names := removeAll k (cache_names c)\<rparr>"
  from nr have step: "delete_each (k # ks) c = delete_each ks ?c"
    by (simp add: caches_delete_def)
  with Cons.prems have "fst (delete_each ks ?c) = Inr ()" by simp
  then have "snd (delete_each ks ?c) =
      ?c\<lparr>cache_names := filter (\<lambda>n. n \<notin> set ks) (cache_names ?c)\<rparr>"
    by (rule Cons.IH)
  with step show ?case
    by (simp add: removeAll_filter_not_eq conj_commute eq_commute)
qed

lemma delete_each_none_rejects:
  "set ks \<inter> set (delete_rejects c) = {} \<Longrightarrow> fst (delete_each ks c) = Inr ()"
  by (induction ks arbitrary: c) (auto simp: caches_delete_def)

lemma unregister_each_ok:
  "fst (unregister_each rs c) = Inr () \<Longrightarrow>
   snd (unregister_each rs c) = c\<lparr>registrations := filter (\<lambda>n. n \<notin> set rs) (registrations c)\<rparr>"
proof (induction rs arbitrary: c)
  case Nil
  then show ?case by simp
next
  case (Cons r rs)
  from Cons.prems have nr: "r \<notin> set (unregister_rejects c)"
    by (auto simp: unregister_def split: if_splits)
  let ?c = "c\<lparr>registrations := removeAll r (registrations c)\<rparr>"
  from nr have step: "unregister_each (r # rs) c = unregister_each rs ?c"
    by (simp add: unregister_def)
  with Cons.prems have "fst (unregister_each rs ?c) = Inr ()" by simp
  then have "snd (unregister_each rs ?c) =
      ?c\<lparr>registrations := filter (\<lambda>n. n \<notin> set rs) (registrations ?c)\<rparr>"
    by (rule Cons.IH)
  with step show ?case
    by (simp add: removeAll_filter_not_eq conj_commute eq_commute)
qed

lemma unregister_each_none_rejects:
  "set rs \<inter> set (unregister_rejects c) = {} \<Longrightarrow> fst (unregister_each rs c) = Inr ()"
  by (induction rs arbitrary: c) (auto simp: unregister_def)

text \<open>What a body that completes without error has done.\<close>

lemma clear_ls_body_ok:
  "\<not> throws (fst (clear_ls_body e)) \<Longrightarrow> localStorage (snd (clear_ls_body e)) = Obj []"
  by (cases "localStorage e") (simp_all add: clear_ls_body_def seq_def throws_def storage_clear_def)

lemma clear_ss_body_ok:
  "\<not> throws (fst (clear_ss_body e)) \<Longrightarrow> sessionStorage (snd (clear_ss_body e)) = Obj []"
  by (cases "sessionStorage e") (simp_all add: clear_ss_body_def seq_def throws_def storage_clear_def)

lemma clear_c_body_ok:
  assumes "\<not> throws (fst (clear_c_body e))"
  shows "\<exists>c. caches e = Obj c \<and> \<not> keys_rejects c
           \<and> caches (snd (clear_c_body e)) = Obj (c\<lparr>cache_names := []\<rparr>)"
proof (cases "caches e")
  case (Obj c)
  with assms have k: "\<not> keys_rejects c"
    by (auto simp: clear_c_body_def seq_def throws_def caches_keys_def)
  with Obj have eq: "clear_c_body e =
      (fst (delete_each (cache_names c) c), e\<lparr>caches := Obj (snd (delete_each (cache_names c) c))\<rparr>)"
    by (simp add: clear_c_body_def seq_def caches_keys_def split: prod.splits)
  with assms have "fst (delete_each (cache_names c) c) = Inr ()"
    by (cases "fst (delete_each (cache_names c) c)") (simp_all add: throws_def)
  then have "snd (delete_each (cache_names c) c) = c\<lparr>cache_names := []\<rparr>"
    by (simp add: delete_each_ok)
  with eq Obj k show ?thesis by simp
qed (use assms in \<open>simp_all add: clear_c_body_def seq_def throws_def\<close>)

lemma clear_sw_body_ok:
  assumes "\<not> throws (fst (clear_sw_body e))"
  shows "\<exists>c. serviceWorker e = Obj c \<and> \<not> getRegistrations_rejects c
           \<and> serviceWorker (snd (clear_sw_body e)) = Obj (c\<lparr>registrations := []\<rparr>)"
proof (cases "serviceWorker e")
  case (Obj c)
  with assms have k: "\<not> getRegistrations_rejects c"
    by (auto simp: clear_sw_body_def seq_def throws_def getRegistrations_def)
  with Obj have eq: "clear_sw_body e =
      (fst (unregister_each (registrations c) c),
       e\<lparr>serviceWorker := Obj (snd (unregister_each (registrations c) c))\<rparr>)"
    by (simp add: clear_sw_body_def seq_def getRegistrations_def split: prod.splits)
  with assms have "fst (unregister_each (registrations c) c) = Inr ()"
    by (cases "fst (unregister_each (registrations c) c)") (simp_all add: throws_def)
  then have "snd (unregister_each (registrations c) c) = c\<lparr>registrations := []\<rparr>"
    by (simp add: unregister_each_ok)
  with eq Obj k show ?thesis by simp
qed (use assms in \<open>simp_all add: clear_sw_body_def seq_def throws_def\<close>)

text \<open>When the bodies complete without error.\<close>

lemma clear_ls_body_throws: "throws (fst (clear_ls_body e)) \<longleftrightarrow> (\<forall>st. localStorage e \<noteq> Obj st)"
  by (cases "localStorage e") (simp_all add: clear_ls_body_def seq_def throws_def)

lemma clear_ss_body_throws: "throws (fst (clear_ss_body e)) \<longleftrightarrow> (\<forall>st. sessionStorage e \<noteq> Obj st)"
  by (cases "sessionStorage e") (simp_all add: clear_ss_body_def seq_def throws_def)

lemma clear_c_body_no_throw:
  assumes "caches e = Obj c" "\<not> keys_rejects c" "set (cache_names c) \<inter> set (delete_rejects c) = {}"
  shows "\<not> throws (fst (clear_c_body e))"
  using assms delete_each_none_rejects [of "cache_names c" c]
  by (cases "delete_each (cache_names c) c")
     (simp add: clear_c_body_def seq_def throws_def caches_keys_def)

lemma clear_sw_body_no_throw:
  assumes "serviceWorker e = Obj c" "\<not> getRegistrations_rejects c"
    "set (registrations c) \<inter> set (unregister_rejects c) = {}"
  shows "\<not> throws (fst (clear_sw_body e))"
  using assms unregister_each_none_rejects [of "registrations c" c]
  by (cases "unregister_each (registrations c) c")
     (simp add: clear_sw_body_def seq_def throws_def getRegistrations_def)

lemma clearCookies_throws: "throws (fst (clearCookies e)) \<longleftrightarrow> document_cookie e = Raises"
  by (cases "document_cookie e") (simp_all add: clearCookies_def throws_def)

text \<open>The rows of a re-detection that returns.\<close>

lemma updateStats_rows:
  assumes "updateStats e = Inr rows"
  shows "\<exists>ls ss c sw idb ck.
           upd_ls e = Inr ls \<and> upd_ss e = Inr ss \<and> upd_caches e = Inr c \<and> upd_sw e = Inr sw
           \<and> upd_idb e = Inr idb \<and> upd_cookie e = Inr ck
           \<and> rows = [(js ''localStorage items'', ls), (js ''sessionStorage items'', ss),
                     (js ''Cache Storage entries'', c), (js ''Service workers'', sw),
                     (js ''IndexedDB databases'', idb), (js ''Cookies (visible)'', ck)]"
  using assms
  by (auto simp: updateStats_def seq_def row_def split: sum.splits)

lemma upd_ls_empty: "localStorage e = Obj [] \<Longrightarrow> upd_ls e = Inr 0"
  by (simp add: upd_ls_def try_catch_def seq_def storage_length_def)

lemma upd_ss_empty: "sessionStorage e = Obj [] \<Longrightarrow> upd_ss e = Inr 0"
  by (simp add: upd_ss_def try_catch_def seq_def storage_length_def)

lemma upd_caches_empty:
  "caches e = Obj c \<Longrightarrow> cache_names c = [] \<Longrightarrow> upd_caches e = Inr 0"
  by (simp add: upd_caches_def try_catch_def seq_def caches_keys_def)

lemma upd_sw_empty:
  "serviceWorker e = Obj c \<Longrightarrow> registrations c = [] \<Longrightarrow> upd_sw e = Inr 0"
  by (simp add: upd_sw_def try_catch_def seq_def getRegistrations_def)

text \<open>The initial detection: every block returns.\<close>

lemma detect_blocks_return:
  "\<exists>s'. detect_ls e s = Inr s'" "\<exists>s'. detect_ss e s = Inr s'" "\<exists>s'. detect_c e s = Inr s'"
  "\<exists>s'. detect_sw e s = Inr s'" "\<exists>s'. detect_idb e s = Inr s'" "\<exists>s'. detect_ck e s = Inr s'"
  "\<exists>s'. detect_est e s = Inr s'"
  by (auto simp: detect_ls_def detect_ss_def detect_c_def detect_sw_def detect_idb_def
        detect_ck_def detect_est_def try_catch_def seq_def split: sum.splits option.splits)

lemma detect_never_throws: "\<exists>s. detect e = Inr s"
proof -
  obtain s1 where 1: "detect_ls e s_init = Inr s1" using detect_blocks_return(1) by blast
  obtain s2 where 2: "detect_ss e s1 = Inr s2" using detect_blocks_return(2) by blast
  obtain s3 where 3: "detect_c e s2 = Inr s3" using detect_blocks_return(3) by blast
  obtain s4 where 4: "detect_sw e s3 = Inr s4" using detect_blocks_return(4) by blast
  obtain s5 where 5: "detect_idb e s4 = Inr s5" using detect_blocks_return(5) by blast
  obtain s6 where 6: "detect_ck e s5 = Inr s6" using detect_blocks_return(6) by blast
  obtain s7 where 7: "detect_est e s6 = Inr s7" using detect_blocks_return(7) by blast
  from 1 2 3 4 5 6 7 show ?thesis by (simp add: detect_def seq_def)
qed

text \<open>
  An item whose key is \<open>length\<close> is hidden from \<open>Object.keys\<close>: the initial
  detection does not count it, \<open>updateStats\<close> does.
\<close>

lemma hidden_key_counts:
  "detect_ls (demo_env\<lparr>localStorage := Obj [(js ''length'', js ''1'')]\<rparr>) s_init = Inr s_init
   \<and> upd_ls (demo_env\<lparr>localStorage := Obj [(js ''length'', js ''1'')]\<rparr>) = Inr 1"
  by code_simp

section \<open>The properties\<close>

lemma r_env_eq: "r_env (run_onclick sel e) = fst (run_clear sel e)"
  by (simp add: run_onclick_def split: prod.splits)

lemma r_log_eq: "r_log (run_onclick sel e) = snd (run_clear sel e)"
  by (simp add: run_onclick_def split: prod.splits)


lemma r_stats_eq: "r_stats (run_onclick sel e) = updateStats (fst (run_clear sel e))"
  by (simp add: run_onclick_def split: prod.splits)

text \<open>
  The sample page after a click with every checkbox checked, as the re-detection shows
  it.
\<close>

lemma demo_click_stats:
  "r_stats (run_onclick all_checked demo_env)
     = Inr [(js ''localStorage items'', 0), (js ''sessionStorage items'', 0),
            (js ''Cache Storage entries'', 0), (js ''Service workers'', 0),
            (js ''IndexedDB databases'', 1), (js ''Cookies (visible)'', 0)]"
  by code_simp





text \<open>
  C2: the initial detection never throws, but the re-detection does. \<open>updateStats\<close>
  evaluates \<open>indexedDB.databases\<close> outside its \<open>try\<close> block, so in a browser without
  IndexedDB it ends with a ReferenceError (with a TypeError when \<open>indexedDB\<close> is
  \<open>undefined\<close>) before the localStorage, sessionStorage and cookie counts are taken,
  where the initial detection of the same page returns with an IndexedDB count of 0. The
  test of \<open>navigator.serviceWorker\<close> is outside its \<open>try\<close> block in the same way.
\<close>

theorem updateStats_throws_without_indexedDB:
  "updateStats no_idb_env = Inl ReferenceError
   \<and> detect no_idb_env
       = Inr \<lparr>s_ls = 1, s_ss = 1, s_c = 1, s_sw = 1, s_idb = 0, s_ck = 1, s_est = None\<rparr>
   \<and> updateStats (demo_env\<lparr>indexedDB := Undef\<rparr>) = Inl TypeError
   \<and> updateStats (demo_env\<lparr>serviceWorker := Raises\<rparr>) = Inl DOMException"
proof -
  have 1: "updateStats no_idb_env = Inl ReferenceError"
    by (simp add: updateStats_def no_idb_env_def demo_env_def upd_caches_def upd_sw_def
          upd_idb_def seq_def try_catch_def caches_keys_def getRegistrations_def)
  have 2: "detect no_idb_env
       = Inr \<lparr>s_ls = 1, s_ss = 1, s_c = 1, s_sw = 1, s_idb = 0, s_ck = 1, s_est = None\<rparr>"
    by code_simp
  have 3: "updateStats (demo_env\<lparr>indexedDB := Undef\<rparr>) = Inl TypeError"
    by (simp add: updateStats_def demo_env_def upd_caches_def upd_sw_def
          upd_idb_def seq_def try_catch_def caches_keys_def getRegistrations_def)
  have 4: "updateStats (demo_env\<lparr>serviceWorker := Raises\<rparr>) = Inl DOMException"
    by (simp add: updateStats_def demo_env_def upd_caches_def upd_sw_def
          seq_def try_catch_def caches_keys_def)
  from 1 2 3 4 show ?thesis by simp
qed

text \<open>
  C3, as stated, does not hold: a success line need not read "cleared". With only the
  service-worker checkbox checked on the sample page, the clearing succeeds and the one
  line of the log is "Service workers unregistered".
\<close>

theorem success_line_not_cleared_counterexample:
  "\<not> throws (fst (clear_sw_body demo_env))
   \<and> r_log (run_onclick only_w demo_env) = [js ''Service workers unregistered'']
   \<and> \<not> sublist (js ''cleared'') (js ''Service workers unregistered'')"
proof -
  have 1: "\<not> throws (fst (clear_sw_body demo_env))"
    by (rule clear_sw_body_no_throw [of _ "\<lparr>registrations = [js ''/''],
          getRegistrations_rejects = False, unregister_rejects = []\<rparr>"])
       (simp_all add: demo_env_def)
  then have 2: "r_log (run_onclick only_w demo_env) = [js ''Service workers unregistered'']"
    by (simp add: r_log_eq run_clear_eq only_w_def none_checked_def)
  have 3: "\<not> sublist (js ''cleared'') (js ''Service workers unregistered'')"
    by code_simp
  from 1 2 3 show ?thesis by simp
qed

text \<open>
  C3, amended: the log has exactly one line for each checked surface, in the order
  localStorage, sessionStorage, Cache Storage, service workers, cookies, and each line
  depends only on whether that surface's own clearing threw, not on the surfaces before
  it. The failure lines read "... failed"; the success lines read "localStorage cleared",
  "sessionStorage cleared", "Cache Storage cleared", "Service workers unregistered" and
  "Cookie cleanup attempted". Whatever fails, every checked surface's clearing is applied
  to the environment.
\<close>

theorem run_log_lines:
  "r_log (run_onclick sel e) =
      (if chk_l sel
       then [if throws (fst (clear_ls_body e)) then js ''localStorage failed''
             else js ''localStorage cleared'']
       else [])
      @ (if chk_s sel
         then [if throws (fst (clear_ss_body e)) then js ''sessionStorage failed''
               else js ''sessionStorage cleared'']
         else [])
      @ (if chk_c sel
         then [if throws (fst (clear_c_body e)) then js ''Cache Storage failed''
               else js ''Cache Storage cleared'']
         else [])
      @ (if chk_w sel
         then [if throws (fst (clear_sw_body e)) then js ''Service workers failed''
               else js ''Service workers unregistered'']
         else [])
      @ (if chk_k sel
         then [if throws (fst (clearCookies e)) then js ''Cookie cleanup failed''
               else js ''Cookie cleanup attempted'']
         else [])
   \<and> r_env (run_onclick sel e) =
      e\<lparr>localStorage :=
          (if chk_l sel then localStorage (snd (clear_ls_body e)) else localStorage e),
        sessionStorage :=
          (if chk_s sel then sessionStorage (snd (clear_ss_body e)) else sessionStorage e),
        caches :=
          (if chk_c sel then caches (snd (clear_c_body e)) else caches e),
        serviceWorker :=
          (if chk_w sel then serviceWorker (snd (clear_sw_body e)) else serviceWorker e),
        document_cookie :=
          (if chk_k sel then document_cookie (snd (clearCookies e)) else document_cookie e)\<rparr>"
  by (simp only: r_log_eq r_env_eq run_clear_eq fst_conv snd_conv simp_thms)

text \<open>
  An instance with a failure in the middle: localStorage is blocked, the other surfaces
  are cleared all the same.
\<close>

theorem run_log_lines_witness:
  "r_log (run_onclick all_checked (demo_env\<lparr>localStorage := Raises\<rparr>)) =
     [js ''localStorage failed'', js ''sessionStorage cleared'', js ''Cache Storage cleared'',
      js ''Service workers unregistered'', js ''Cookie cleanup attempted'']"
proof -
  let ?e = "demo_env\<lparr>localStorage := Raises\<rparr>"
  have 1: "throws (fst (clear_ls_body ?e))"
    by (simp add: clear_ls_body_throws)
  have 2: "\<not> throws (fst (clear_ss_body ?e))"
    by (simp add: clear_ss_body_throws demo_env_def)
  have 3: "\<not> throws (fst (clear_c_body ?e))"
    by (rule clear_c_body_no_throw [of _ "\<lparr>cache_names = [js ''v1''], keys_rejects = False,
          delete_rejects = []\<rparr>"])
       (simp_all add: demo_env_def)
  have 4: "\<not> throws (fst (clear_sw_body ?e))"
    by (rule clear_sw_body_no_throw [of _ "\<lparr>registrations = [js ''/''],
          getRegistrations_rejects = False, unregister_rejects = []\<rparr>"])
       (simp_all add: demo_env_def)
  have 5: "\<not> throws (fst (clearCookies ?e))"
    by (simp add: clearCookies_throws demo_env_def)
  have h: "chk_l all_checked" "chk_s all_checked" "chk_c all_checked" "chk_w all_checked"
    "chk_k all_checked"
    by (simp_all add: all_checked_def)
  from run_log_lines [of all_checked ?e] 1 2 3 4 5 h show ?thesis
    by simp
qed



text \<open>
  For localStorage, sessionStorage, Cache Storage and service workers: when the surface's
  checkbox is checked and its clearing completes without error, the re-detection of the
  same click, if it returns, reports 0 for that surface.
\<close>

lemma cleared_surface_counts_zero:
  assumes "r_stats (run_onclick sel e) = Inr rows"
  shows "(chk_l sel \<and> \<not> throws (fst (clear_ls_body e)) \<longrightarrow>
            rows ! 0 = (js ''localStorage items'', 0))
     \<and> (chk_s sel \<and> \<not> throws (fst (clear_ss_body e)) \<longrightarrow>
            rows ! 1 = (js ''sessionStorage items'', 0))
     \<and> (chk_c sel \<and> \<not> throws (fst (clear_c_body e)) \<longrightarrow>
            rows ! 2 = (js ''Cache Storage entries'', 0))
     \<and> (chk_w sel \<and> \<not> throws (fst (clear_sw_body e)) \<longrightarrow>
            rows ! 3 = (js ''Service workers'', 0))"
proof -
  let ?e = "fst (run_clear sel e)"
  from assms have "updateStats ?e = Inr rows"
    by (simp add: r_stats_eq)
  from updateStats_rows [OF this] obtain ls ss c sw idb ck where
    u: "upd_ls ?e = Inr ls" "upd_ss ?e = Inr ss" "upd_caches ?e = Inr c" "upd_sw ?e = Inr sw"
    and rows: "rows = [(js ''localStorage items'', ls), (js ''sessionStorage items'', ss),
                     (js ''Cache Storage entries'', c), (js ''Service workers'', sw),
                     (js ''IndexedDB databases'', idb), (js ''Cookies (visible)'', ck)]"
    by blast
  have l: "ls = 0" if "chk_l sel" "\<not> throws (fst (clear_ls_body e))"
  proof -
    from that have "localStorage ?e = Obj []"
      by (simp add: run_clear_eq clear_ls_body_ok)
    then have "upd_ls ?e = Inr 0" by (rule upd_ls_empty)
    with u(1) show ?thesis by simp
  qed
  have s: "ss = 0" if "chk_s sel" "\<not> throws (fst (clear_ss_body e))"
  proof -
    from that have "sessionStorage ?e = Obj []"
      by (simp add: run_clear_eq clear_ss_body_ok)
    then have "upd_ss ?e = Inr 0" by (rule upd_ss_empty)
    with u(2) show ?thesis by simp
  qed
  have c: "c = 0" if "chk_c sel" "\<not> throws (fst (clear_c_body e))"
  proof -
    from clear_c_body_ok [OF that(2)] obtain c0 where
      "caches (snd (clear_c_body e)) = Obj (c0\<lparr>cache_names := []\<rparr>)" by blast
    with that(1) have "caches ?e = Obj (c0\<lparr>cache_names := []\<rparr>)"
      by (simp add: run_clear_eq)
    then have "upd_caches ?e = Inr 0" by (rule upd_caches_empty) simp
    with u(3) show ?thesis by simp
  qed
  have w: "sw = 0" if "chk_w sel" "\<not> throws (fst (clear_sw_body e))"
  proof -
    from clear_sw_body_ok [OF that(2)] obtain c0 where
      "serviceWorker (snd (clear_sw_body e)) = Obj (c0\<lparr>registrations := []\<rparr>)" by blast
    with that(1) have "serviceWorker ?e = Obj (c0\<lparr>registrations := []\<rparr>)"
      by (simp add: run_clear_eq)
    then have "upd_sw ?e = Inr 0" by (rule upd_sw_empty) simp
    with u(4) show ?thesis by simp
  qed
  from l s c w show ?thesis by (simp add: rows)
qed

lemma cleared_surface_counts_zero_demo:
  "r_stats (run_onclick all_checked demo_env)
     = Inr [(js ''localStorage items'', 0), (js ''sessionStorage items'', 0),
            (js ''Cache Storage entries'', 0), (js ''Service workers'', 0),
            (js ''IndexedDB databases'', 1), (js ''Cookies (visible)'', 0)]
   \<and> chk_l all_checked \<and> \<not> throws (fst (clear_ls_body demo_env))
   \<and> chk_s all_checked \<and> \<not> throws (fst (clear_ss_body demo_env))
   \<and> chk_c all_checked \<and> \<not> throws (fst (clear_c_body demo_env))
   \<and> chk_w all_checked \<and> \<not> throws (fst (clear_sw_body demo_env))
   \<and> upd_ls demo_env = Inr 1 \<and> upd_ss demo_env = Inr 1
   \<and> upd_caches demo_env = Inr 1 \<and> upd_sw demo_env = Inr 1"
proof -
  let ?rows = "[(js ''localStorage items'', 0), (js ''sessionStorage items'', 0),
            (js ''Cache Storage entries'', 0), (js ''Service workers'', 0),
            (js ''IndexedDB databases'', 1), (js ''Cookies (visible)'', 0::nat)]"
  note r = demo_click_stats
  have h: "chk_l all_checked" "chk_s all_checked" "chk_c all_checked" "chk_w all_checked"
    by (simp_all add: all_checked_def)
  have 1: "\<not> throws (fst (clear_ls_body demo_env))"
    by (simp add: clear_ls_body_throws demo_env_def)
  have 2: "\<not> throws (fst (clear_ss_body demo_env))"
    by (simp add: clear_ss_body_throws demo_env_def)
  have 3: "\<not> throws (fst (clear_c_body demo_env))"
    by (rule clear_c_body_no_throw [of _ "\<lparr>cache_names = [js ''v1''], keys_rejects = False,
          delete_rejects = []\<rparr>"])
       (simp_all add: demo_env_def)
  have 4: "\<not> throws (fst (clear_sw_body demo_env))"
    by (rule clear_sw_body_no_throw [of _ "\<lparr>registrations = [js ''/''],
          getRegistrations_rejects = False, unregister_rejects = []\<rparr>"])
       (simp_all add: demo_env_def)
  have b: "upd_ls demo_env = Inr 1" "upd_ss demo_env = Inr 1"
    "upd_caches demo_env = Inr 1" "upd_sw demo_env = Inr 1"
    by (simp_all add: demo_env_def upd_ls_def upd_ss_def upd_caches_def upd_sw_def
          try_catch_def seq_def storage_length_def caches_keys_def getRegistrations_def)
  from cleared_surface_counts_zero [OF r] h 1 2 3 4 r b show ?thesis
    by simp
qed

text \<open>
  C5: after a successful clear the re-detection should report 0, but for cookies the
  code misses a case. The sample page at \<open>/b/c\<close> has one cookie, stored with path
  \<open>/b\<close>, which is the path a cookie gets when the page sets it without a path. The
  cleanup completes without error and is logged, but its expiring entries name the paths
  \<open>/\<close> and \<open>/b/c\<close> only, so the cookie stays and the re-detection of the same
  click still counts 1. The browser would have removed it: assigning the same expiring
  entry with \<open>path=/b\<close> empties the store.
\<close>

theorem default_path_cookie_survives_cleanup:
  "default_path (location_pathname path_cookie_env) = js ''/b''
   \<and> upd_cookie path_cookie_env = Inr 1
   \<and> \<not> throws (fst (clearCookies path_cookie_env))
   \<and> r_log (run_onclick only_k path_cookie_env) = [js ''Cookie cleanup attempted'']
   \<and> r_stats (run_onclick only_k path_cookie_env)
       = Inr [(js ''localStorage items'', 1), (js ''sessionStorage items'', 1),
              (js ''Cache Storage entries'', 1), (js ''Service workers'', 1),
              (js ''IndexedDB databases'', 1), (js ''Cookies (visible)'', 1)]
   \<and> cookie_set (js ''a.io'') (js ''/b/c'')
         (js ''p=; expires=Thu, 01 Jan 1970 00:00:00 GMT; path=/b'')
         [\<lparr>ck_name = js ''p'', ck_value = js ''x'', ck_domain = js ''a.io'',
           ck_path = js ''/b''\<rparr>]
       = []"
proof -
  have d: "default_path (location_pathname path_cookie_env) = js ''/b''"
    by code_simp
  have 0: "upd_cookie path_cookie_env = Inr 1"
    by code_simp
  have 1: "\<not> throws (fst (clearCookies path_cookie_env))"
    by (simp add: clearCookies_throws path_cookie_env_def)
  then have 2: "r_log (run_onclick only_k path_cookie_env) = [js ''Cookie cleanup attempted'']"
    by (simp add: r_log_eq run_clear_eq only_k_def none_checked_def)
  have 3: "r_stats (run_onclick only_k path_cookie_env)
       = Inr [(js ''localStorage items'', 1), (js ''sessionStorage items'', 1),
              (js ''Cache Storage entries'', 1), (js ''Service workers'', 1),
              (js ''IndexedDB databases'', 1), (js ''Cookies (visible)'', 1)]"
    by code_simp
  have 4: "cookie_set (js ''a.io'') (js ''/b/c'')
         (js ''p=; expires=Thu, 01 Jan 1970 00:00:00 GMT; path=/b'')
         [\<lparr>ck_name = js ''p'', ck_value = js ''x'', ck_domain = js ''a.io'',
           ck_path = js ''/b''\<rparr>]
       = []"
    by code_simp
  from d 0 1 2 3 4 show ?thesis by simp
qed

text \<open>So a cleanup that completed is followed by a cookie count that is not 0.\<close>

theorem default_path_cookie_survives_cleanup_witness:
  "\<not> throws (fst (clearCookies path_cookie_env))
   \<and> r_stats (run_onclick only_k path_cookie_env)
       \<noteq> Inr [(js ''localStorage items'', 1), (js ''sessionStorage items'', 1),
               (js ''Cache Storage entries'', 1), (js ''Service workers'', 1),
               (js ''IndexedDB databases'', 1), (js ''Cookies (visible)'', 0)]"
  using default_path_cookie_survives_cleanup by simp

lemma chk_input_id:
  \<open>markup_has (js ''<input type="checkbox" id="'' @ i @ js ''"'') (chk i l d x)\<close>
proof -
  have \<open>chk i l d x =
     (js ''<label style="display:block;margin:12px 0;opacity:''
       @ (if x then js ''0.5'' else js ''1'') @ js ''">'')
     @ (js ''<input type="checkbox" id="'' @ i @ js ''"'')
     @ (js '' '' @ (if x then js ''disabled'' else [])
       @ js '' style="margin-right:8px"><strong>'' @ l
       @ js ''</strong><div style="font-size:13px;opacity:.75;margin-left:22px">'' @ d
       @ js ''</div></label>'')\<close>
    by (simp add: chk_def js_def)
  then show ?thesis
    unfolding markup_has_def sublist_def by blast
qed

lemma chk_input_disabled:
  \<open>markup_has
     (js ''<input type="checkbox" id="'' @ i @ js ''" disabled style="margin-right:8px">'')
     (chk i l d True)\<close>
proof -
  have \<open>chk i l d True =
     js ''<label style="display:block;margin:12px 0;opacity:0.5">''
     @ (js ''<input type="checkbox" id="'' @ i @ js ''" disabled style="margin-right:8px">'')
     @ (js ''<strong>'' @ l
       @ js ''</strong><div style="font-size:13px;opacity:.75;margin-left:22px">'' @ d
       @ js ''</div></label>'')\<close>
    by (simp add: chk_def js_def)
  then show ?thesis
    unfolding markup_has_def sublist_def by blast
qed

lemma chk_input_enabled:
  \<open>markup_has
     (js ''<input type="checkbox" id="'' @ i @ js ''"  style="margin-right:8px">'')
     (chk i l d False)\<close>
proof -
  have \<open>chk i l d False =
     js ''<label style="display:block;margin:12px 0;opacity:1">''
     @ (js ''<input type="checkbox" id="'' @ i @ js ''"  style="margin-right:8px">'')
     @ (js ''<strong>'' @ l
       @ js ''</strong><div style="font-size:13px;opacity:.75;margin-left:22px">'' @ d
       @ js ''</div></label>'')\<close>
    by (simp add: chk_def js_def)
  then show ?thesis
    unfolding markup_has_def sublist_def by blast
qed

text \<open>The text \<open>disabled\<close> occurs nowhere in the markup of an enabled option.\<close>

lemma chk_enabled:
  "\<not> markup_has (js ''disabled'')
     (chk (js ''l'') (js ''Clear localStorage'')
        (js ''Small saved values used by the site.'') False)"
  "\<not> markup_has (js ''disabled'')
     (chk (js ''s'') (js ''Clear sessionStorage'') (js ''Temporary tab memory.'') False)"
  "\<not> markup_has (js ''disabled'')
     (chk (js ''c'') (js ''Delete Cache Storage'') (js ''Stored network responses.'') False)"
  "\<not> markup_has (js ''disabled'')
     (chk (js ''w'') (js ''Unregister service workers'')
        (js ''Background logic that can keep old behavior.'') False)"
  "\<not> markup_has (js ''disabled'')
     (chk (js ''k'') (js ''Attempt to clear cookies'')
        (js ''Only cookies browsers allow scripts to remove.'') False)"
  by code_simp+

text \<open>The input element without the attribute does not occur in a disabled option.\<close>

lemma chk_disabled:
  \<open>\<not> markup_has (js ''<input type="checkbox" id="l"  style="margin-right:8px">'')
     (chk (js ''l'') (js ''Clear localStorage'')
        (js ''Small saved values used by the site.'') True)\<close>
  \<open>\<not> markup_has (js ''<input type="checkbox" id="s"  style="margin-right:8px">'')
     (chk (js ''s'') (js ''Clear sessionStorage'') (js ''Temporary tab memory.'') True)\<close>
  \<open>\<not> markup_has (js ''<input type="checkbox" id="c"  style="margin-right:8px">'')
     (chk (js ''c'') (js ''Delete Cache Storage'') (js ''Stored network responses.'') True)\<close>
  \<open>\<not> markup_has (js ''<input type="checkbox" id="w"  style="margin-right:8px">'')
     (chk (js ''w'') (js ''Unregister service workers'')
        (js ''Background logic that can keep old behavior.'') True)\<close>
  \<open>\<not> markup_has (js ''<input type="checkbox" id="k"  style="margin-right:8px">'')
     (chk (js ''k'') (js ''Attempt to clear cookies'')
        (js ''Only cookies browsers allow scripts to remove.'') True)\<close>
  by code_simp+

lemma markup_has_trans: "markup_has a b \<Longrightarrow> markup_has b m \<Longrightarrow> markup_has a m"
  unfolding markup_has_def by (rule sublist_order.order.trans)

lemma disabled_in_tag:
  \<open>markup_has (js ''disabled'')
     (js ''<input type="checkbox" id="'' @ i @ js ''" disabled style="margin-right:8px">'')\<close>
proof -
  have \<open>js ''<input type="checkbox" id="'' @ i @ js ''" disabled style="margin-right:8px">''
      = (js ''<input type="checkbox" id="'' @ i @ js ''" '') @ js ''disabled''
        @ js '' style="margin-right:8px">''\<close>
    by (simp add: js_def)
  then show ?thesis
    unfolding markup_has_def sublist_def by blast
qed

text \<open>For an option whose enabled and disabled markup have been told apart as above.\<close>

lemma input_tag_iff:
  assumes \<open>\<not> markup_has (js ''disabled'') (chk i l d False)\<close>
    and \<open>\<not> markup_has (js ''<input type="checkbox" id="'' @ i
                @ js ''"  style="margin-right:8px">'') (chk i l d True)\<close>
  shows \<open>markup_has
       (js ''<input type="checkbox" id="'' @ i @ js ''" disabled style="margin-right:8px">'')
       (chk i l d x) = x\<close>
    and \<open>markup_has
       (js ''<input type="checkbox" id="'' @ i @ js ''"  style="margin-right:8px">'')
       (chk i l d x) = (\<not> x)\<close>
proof -
  have \<open>\<not> markup_has
       (js ''<input type="checkbox" id="'' @ i @ js ''" disabled style="margin-right:8px">'')
       (chk i l d False)\<close>
    using assms(1) markup_has_trans [OF disabled_in_tag [of i]] by blast
  then show \<open>markup_has
       (js ''<input type="checkbox" id="'' @ i @ js ''" disabled style="margin-right:8px">'')
       (chk i l d x) = x\<close>
    using chk_input_disabled [of i l d] by (cases x) simp_all
  show \<open>markup_has
       (js ''<input type="checkbox" id="'' @ i @ js ''"  style="margin-right:8px">'')
       (chk i l d x) = (\<not> x)\<close>
    using assms(2) chk_input_enabled [of i l d] by (cases x) simp_all
qed


text \<open>
  C6, as stated, does not hold for IndexedDB, which the specification counts among the
  clearable surfaces: whatever its count, the overlay has the same five checkboxes and
  none of them is for IndexedDB.
\<close>

theorem no_indexedDB_checkbox_counterexample:
  "length (checkbox_list (s_init\<lparr>s_idb := 1\<rparr>)) = 5
   \<and> checkbox_list (s_init\<lparr>s_idb := 1\<rparr>) = checkbox_list s_init
   \<and> \<not> list_ex (markup_has (js ''IndexedDB'')) (checkbox_list (s_init\<lparr>s_idb := 1\<rparr>))
   \<and> \<not> list_ex (markup_has (js ''indexedDB'')) (checkbox_list (s_init\<lparr>s_idb := 1\<rparr>))"
proof -
  have 1: "checkbox_list (s_init\<lparr>s_idb := 1\<rparr>) = checkbox_list s_init"
    by (simp add: checkbox_list_def)
  have 2: "length (checkbox_list s_init) = 5"
    by (simp add: checkbox_list_def)
  have 3: "\<not> list_ex (markup_has (js ''IndexedDB'')) (checkbox_list s_init)"
    by code_simp
  have 4: "\<not> list_ex (markup_has (js ''indexedDB'')) (checkbox_list s_init)"
    by code_simp
  from 1 2 3 4 show ?thesis by simp
qed

text \<open>
  C6, amended: for each of the five surfaces the handler clears (localStorage,
  sessionStorage, Cache Storage, service workers, cookies) the overlay has one checkbox,
  with the id the handler reads (\<open>l\<close>, \<open>s\<close>, \<open>c\<close>, \<open>w\<close>, \<open>k\<close>), and its
  \<open>input\<close> element is rendered with the \<open>disabled\<close> attribute exactly when the
  detected count of its surface is zero, and without it exactly when the count is not
  zero. There are no other checkboxes.
\<close>

theorem checkbox_per_surface:
  \<open>length (checkbox_list s) = 5
   \<and> markup_has (js ''<input type="checkbox" id="l" disabled style="margin-right:8px">'')
        (checkbox_list s ! 0) = (s_ls s = 0)
   \<and> markup_has (js ''<input type="checkbox" id="l"  style="margin-right:8px">'')
        (checkbox_list s ! 0) = (s_ls s \<noteq> 0)
   \<and> markup_has (js ''<input type="checkbox" id="s" disabled style="margin-right:8px">'')
        (checkbox_list s ! 1) = (s_ss s = 0)
   \<and> markup_has (js ''<input type="checkbox" id="s"  style="margin-right:8px">'')
        (checkbox_list s ! 1) = (s_ss s \<noteq> 0)
   \<and> markup_has (js ''<input type="checkbox" id="c" disabled style="margin-right:8px">'')
        (checkbox_list s ! 2) = (s_c s = 0)
   \<and> markup_has (js ''<input type="checkbox" id="c"  style="margin-right:8px">'')
        (checkbox_list s ! 2) = (s_c s \<noteq> 0)
   \<and> markup_has (js ''<input type="checkbox" id="w" disabled style="margin-right:8px">'')
        (checkbox_list s ! 3) = (s_sw s = 0)
   \<and> markup_has (js ''<input type="checkbox" id="w"  style="margin-right:8px">'')
        (checkbox_list s ! 3) = (s_sw s \<noteq> 0)
   \<and> markup_has (js ''<input type="checkbox" id="k" disabled style="margin-right:8px">'')
        (checkbox_list s ! 4) = (s_ck s = 0)
   \<and> markup_has (js ''<input type="checkbox" id="k"  style="margin-right:8px">'')
        (checkbox_list s ! 4) = (s_ck s \<noteq> 0)\<close>
proof -
  have tags:
    \<open>js ''<input type="checkbox" id="'' @ js ''l'' @ js ''" disabled style="margin-right:8px">''
       = js ''<input type="checkbox" id="l" disabled style="margin-right:8px">''\<close>
    \<open>js ''<input type="checkbox" id="'' @ js ''l'' @ js ''"  style="margin-right:8px">''
       = js ''<input type="checkbox" id="l"  style="margin-right:8px">''\<close>
    \<open>js ''<input type="checkbox" id="'' @ js ''s'' @ js ''" disabled style="margin-right:8px">''
       = js ''<input type="checkbox" id="s" disabled style="margin-right:8px">''\<close>
    \<open>js ''<input type="checkbox" id="'' @ js ''s'' @ js ''"  style="margin-right:8px">''
       = js ''<input type="checkbox" id="s"  style="margin-right:8px">''\<close>
    \<open>js ''<input type="checkbox" id="'' @ js ''c'' @ js ''" disabled style="margin-right:8px">''
       = js ''<input type="checkbox" id="c" disabled style="margin-right:8px">''\<close>
    \<open>js ''<input type="checkbox" id="'' @ js ''c'' @ js ''"  style="margin-right:8px">''
       = js ''<input type="checkbox" id="c"  style="margin-right:8px">''\<close>
    \<open>js ''<input type="checkbox" id="'' @ js ''w'' @ js ''" disabled style="margin-right:8px">''
       = js ''<input type="checkbox" id="w" disabled style="margin-right:8px">''\<close>
    \<open>js ''<input type="checkbox" id="'' @ js ''w'' @ js ''"  style="margin-right:8px">''
       = js ''<input type="checkbox" id="w"  style="margin-right:8px">''\<close>
    \<open>js ''<input type="checkbox" id="'' @ js ''k'' @ js ''" disabled style="margin-right:8px">''
       = js ''<input type="checkbox" id="k" disabled style="margin-right:8px">''\<close>
    \<open>js ''<input type="checkbox" id="'' @ js ''k'' @ js ''"  style="margin-right:8px">''
       = js ''<input type="checkbox" id="k"  style="margin-right:8px">''\<close>
    by (simp_all add: js_def)
  note l = input_tag_iff [OF chk_enabled(1), of "s_ls s = 0", unfolded tags, OF chk_disabled(1)]
  note s = input_tag_iff [OF chk_enabled(2), of "s_ss s = 0", unfolded tags, OF chk_disabled(2)]
  note c = input_tag_iff [OF chk_enabled(3), of "s_c s = 0", unfolded tags, OF chk_disabled(3)]
  note w = input_tag_iff [OF chk_enabled(4), of "s_sw s = 0", unfolded tags, OF chk_disabled(4)]
  note k = input_tag_iff [OF chk_enabled(5), of "s_ck s = 0", unfolded tags, OF chk_disabled(5)]
  have n: "length (checkbox_list s) = 5"
    by (simp add: checkbox_list_def)
  have e: "checkbox_list s ! 0 = chk (js ''l'') (js ''Clear localStorage'')
        (js ''Small saved values used by the site.'') (s_ls s = 0)"
    "checkbox_list s ! 1 = chk (js ''s'') (js ''Clear sessionStorage'')
        (js ''Temporary tab memory.'') (s_ss s = 0)"
    "checkbox_list s ! 2 = chk (js ''c'') (js ''Delete Cache Storage'')
        (js ''Stored network responses.'') (s_c s = 0)"
    "checkbox_list s ! 3 = chk (js ''w'') (js ''Unregister service workers'')
        (js ''Background logic that can keep old behavior.'') (s_sw s = 0)"
    "checkbox_list s ! 4 = chk (js ''k'') (js ''Attempt to clear cookies'')
        (js ''Only cookies browsers allow scripts to remove.'') (s_ck s = 0)"
    by (simp_all add: checkbox_list_def)
  show ?thesis
    unfolding e by (intro conjI n l s c w k)
qed

text \<open>With one localStorage item and nothing else, only the first checkbox is enabled.\<close>

theorem checkbox_per_surface_witness:
  \<open>markup_has (js ''<input type="checkbox" id="l"  style="margin-right:8px">'')
     (checkbox_list (s_init\<lparr>s_ls := 1\<rparr>) ! 0)
   \<and> \<not> markup_has (js ''<input type="checkbox" id="l" disabled style="margin-right:8px">'')
     (checkbox_list (s_init\<lparr>s_ls := 1\<rparr>) ! 0)
   \<and> markup_has (js ''<input type="checkbox" id="s" disabled style="margin-right:8px">'')
     (checkbox_list (s_init\<lparr>s_ls := 1\<rparr>) ! 1)
   \<and> \<not> markup_has (js ''<input type="checkbox" id="s"  style="margin-right:8px">'')
     (checkbox_list (s_init\<lparr>s_ls := 1\<rparr>) ! 1)\<close>
  using checkbox_per_surface [of "s_init\<lparr>s_ls := 1\<rparr>"]
  by (simp add: s_init_def)










text \<open>
  C10: the initial detection and \<open>updateStats\<close> compute the same cookie count,
  whatever \<open>document.cookie\<close> does; when it yields a string, both give the number of
  \<open>;\<close>-separated segments containing a non-whitespace character, which is 0 for an
  empty or all-whitespace string.
\<close>

theorem cookie_count_agree:
  "map_sum id s_ck (detect_ck e s) = upd_cookie e
   \<and> (document_cookie e = Obj st \<longrightarrow>
        detect_ck e s = Inr (s\<lparr>s_ck := spec_cookie_count (cookie_string st)\<rparr>)
        \<and> upd_cookie e = Inr (spec_cookie_count (cookie_string st))
        \<and> (cookie_string st = [] \<or> list_all is_ws (cookie_string st) \<longrightarrow>
             upd_cookie e = Inr 0))"
proof -
  have 1: "map_sum id s_ck (detect_ck e s) = upd_cookie e"
    by (cases "document_cookie e")
       (simp_all add: detect_ck_def upd_cookie_def try_catch_def seq_def)
  have 2: "upd_cookie e = Inr (spec_cookie_count (cookie_string st))"
    if "document_cookie e = Obj st"
    using that count_segments_spec [of "cookie_string st"]
    by (simp add: upd_cookie_def try_catch_def seq_def)
  have 3: "detect_ck e s = Inr (s\<lparr>s_ck := spec_cookie_count (cookie_string st)\<rparr>)"
    if "document_cookie e = Obj st"
  proof (cases "truthy (cookie_string st) \<and> truthy (trim (cookie_string st))")
    case True
    with that count_segments_spec [of "cookie_string st"] show ?thesis
      by (simp add: detect_ck_def try_catch_def seq_def)
  next
    case False
    with that count_segments_spec [of "cookie_string st"] show ?thesis
      by (auto simp add: detect_ck_def try_catch_def seq_def)
  qed
  have 4: "upd_cookie e = Inr 0"
    if "document_cookie e = Obj st"
      "cookie_string st = [] \<or> list_all is_ws (cookie_string st)"
    using 2 [OF that(1)] spec_cookie_count_blank [OF that(2)] by simp
  from 1 2 3 4 show ?thesis by blast
qed

text \<open>
  On the page with the cookie string \<open>a=1; b=2\<close> both counts are 2; on the page
  without cookies the string is empty and both are 0.
\<close>

theorem cookie_count_agree_witness:
  "document_cookie two_cookie_env
     = Obj \<lparr>jar = [\<lparr>ck_name = js ''a'', ck_value = js ''1'', ck_domain = js ''a.io'',
                    ck_path = js ''/''\<rparr>,
                   \<lparr>ck_name = js ''b'', ck_value = js ''2'', ck_domain = js ''a.io'',
                    ck_path = js ''/b/c''\<rparr>],
            assigned = []\<rparr>
   \<and> cookie_string \<lparr>jar = [\<lparr>ck_name = js ''a'', ck_value = js ''1'', ck_domain = js ''a.io'',
                    ck_path = js ''/''\<rparr>,
                   \<lparr>ck_name = js ''b'', ck_value = js ''2'', ck_domain = js ''a.io'',
                    ck_path = js ''/b/c''\<rparr>],
            assigned = []\<rparr> = js ''a=1; b=2''
   \<and> detect_ck two_cookie_env s_init = Inr (s_init\<lparr>s_ck := 2\<rparr>)
   \<and> upd_cookie two_cookie_env = Inr 2
   \<and> document_cookie empty_env = Obj \<lparr>jar = [], assigned = []\<rparr>
   \<and> cookie_string \<lparr>jar = [], assigned = []\<rparr> = []
   \<and> detect_ck empty_env s_init = Inr (s_init\<lparr>s_ck := 0\<rparr>)
   \<and> upd_cookie empty_env = Inr 0"
proof -
  let ?k = "\<lparr>jar = [\<lparr>ck_name = js ''a'', ck_value = js ''1'', ck_domain = js ''a.io'',
                     ck_path = js ''/''\<rparr>,
                    \<lparr>ck_name = js ''b'', ck_value = js ''2'', ck_domain = js ''a.io'',
                     ck_path = js ''/b/c''\<rparr>],
             assigned = []\<rparr>"
  let ?n = "\<lparr>jar = [], assigned = []\<rparr> :: cookie_store"
  have h: "document_cookie two_cookie_env = Obj ?k"
    by (simp add: two_cookie_env_def)
  have c: "cookie_string ?k = js ''a=1; b=2''"
    by code_simp
  have n: "spec_cookie_count (js ''a=1; b=2'') = 2"
    by code_simp
  have h0: "document_cookie empty_env = Obj ?n"
    by (simp add: empty_env_def)
  have c0: "cookie_string ?n = []"
    by (simp add: cookie_string_def)
  from cookie_count_agree [of two_cookie_env s_init ?k]
    cookie_count_agree [of empty_env s_init ?n] h c n h0 c0
  show ?thesis by (simp add: spec_cookie_count_def)
qed

end
